theory Spec2Isabelle
  imports Complex_Main "HOL-Library.Word"
begin

section \<open>Concerto cloud provider: data model\<close>

text \<open>
  The Go structs of the provider become records. Field names carry a prefix
  because several structs share the names \<open>Id\<close> and \<open>Name\<close>. A Go slice is a
  list; a nil slice and an empty slice are both \<open>[]\<close>. The \<open>float64\<close> core
  count is only ever copied, never computed on.
\<close>

record ConcertoInstance =
  inst_Id :: string
  inst_Name :: string
  inst_PublicIP :: string
  inst_CPUs :: real
  inst_Memory :: int
  inst_Storage :: int

record Ship =
  ship_Id :: string
  ship_Fqdn :: string
  ship_Name :: string
  ship_Public_ip :: string
  ship_Server_plan_id :: string
  ship_Cpus :: real
  ship_Memory :: int
  ship_Storage :: int

record ConcertoLoadBalancer =
  lb_Id :: string
  lb_Name :: string
  lb_FQDN :: string
  lb_Port :: int
  lb_NodePort :: int
  lb_Protocol :: string

record ConcertoLoadBalancerNode =
  node_ID :: string
  node_IP :: string

text \<open>
  The fields of \<open>api.ServicePort\<close>, \<open>api.LoadBalancerIngress\<close> and
  \<open>api.LoadBalancerStatus\<close> that the provider reads or writes. A status is its
  list of ingress points.
\<close>

record ServicePort =
  sp_Port :: int
  sp_NodePort :: int

record LoadBalancerIngress =
  ing_IP :: string
  ing_Hostname :: string

type_synonym LoadBalancerStatus = "LoadBalancerIngress list"

type_synonym ServiceAffinity = string

definition ServiceAffinityNone :: ServiceAffinity where
  \<comment> \<open>Modelled from the spec: the constant \<open>api.ServiceAffinityNone\<close> is declared in
      the orchestrator's api package, which is not among the sources; the spec calls
      it the affinity "none".\<close>
  "ServiceAffinityNone = ''None''"

subsection \<open>Errors and panics\<close>

text \<open>
  One constructor for each error value the provider declares or formats:
  \<^item> \<open>External\<close>: an error made by a collaborator (the HTTP transport), passed on unchanged;
  \<^item> \<open>JSONError\<close>: the error of \<open>json.Unmarshal\<close>;
  \<^item> \<open>InstanceNotFound\<close>: \<open>cloudprovider.InstanceNotFound\<close>;
  \<^item> \<open>HTTPGetLoadBalancersError status\<close>: "HTTP %v when getting '/kaas/load_balancers'";
  \<^item> \<open>HTTPCreateLoadBalancerError status name\<close>: "HTTP %v when creating load balancer %s";
  \<^item> \<open>LoadBalancerNotFound id\<close>: "Load balancer not found " + id;
  \<^item> \<open>NodeNotFound ip id\<close>: "Node %s not found in load balancer %s";
  \<^item> \<open>NamesToIPsError e\<close>: "Error while converting names to IP addresses: %v";
  \<^item> \<open>CouldNotFindInstance name\<close>: "Could not find instance: %s";
  \<^item> the remaining ones are the variables of the errors file.
  A run-time panic of Go is a result of its own, not an error value.
\<close>

datatype error =
    External string
  | JSONError
  | InstanceNotFound
  | HTTPGetLoadBalancersError int
  | HTTPCreateLoadBalancerError int string
  | LoadBalancerNotFound string
  | NodeNotFound string string
  | NamesToIPsError error
  | CouldNotFindInstance string
  | NotYetImplemented
  | NoConfigFile
  | UnsupportedOperation
  | LoadBalancerCreateError
  | LoadBalancerDeleteError
  | LoadBalancerRegisterInstanceError
  | LoadBalancerDeregisterInstanceError
  | LoadBalancerUnsupportedAffinityError
  | LoadBalancerUnsupportedExternalIPError
  | LoadBalancerUnsupportedNumberOfPortsError

datatype panic = NilPointerDereference | IndexOutOfRange

datatype 'a result = Return 'a | Fail error | Panic panic

subsection \<open>The REST client and the remote calls it makes\<close>

text \<open>
  The transport is the three verbs of \<open>restService\<close>, each a function of the
  remote world \<open>'w\<close> that returns body, status and error and the world after
  the call. Bodies are of an abstract type \<open>'b\<close>; \<open>json.Unmarshal\<close> and
  \<open>json.Marshal\<close> at the types the provider uses are fields of the same
  record (\<open>unmarshal_lb\<close> decodes into an existing struct, as the code does).
  Every call is appended to a list of received calls, as the test double
  \<open>RESTMock\<close> does.
\<close>

datatype 'b call = GET string | POST string 'b | DELETE string

type_synonym 'b response = "'b \<times> int \<times> error option"

record ('w, 'b) concertoAPIServiceREST =
  Get :: "string \<Rightarrow> 'w \<Rightarrow> 'b response \<times> 'w"
  Post :: "string \<Rightarrow> 'b \<Rightarrow> 'w \<Rightarrow> 'b response \<times> 'w"
  Delete :: "string \<Rightarrow> 'w \<Rightarrow> 'b response \<times> 'w"
  unmarshal_ships :: "'b \<Rightarrow> Ship list option"
  unmarshal_lbs :: "'b \<Rightarrow> ConcertoLoadBalancer list option"
  unmarshal_nodes :: "'b \<Rightarrow> ConcertoLoadBalancerNode list option"
  unmarshal_lb :: "'b \<Rightarrow> ConcertoLoadBalancer \<Rightarrow> ConcertoLoadBalancer option"
  marshal_node :: "ConcertoLoadBalancerNode \<Rightarrow> 'b"
  marshal_lb :: "ConcertoLoadBalancer \<Rightarrow> 'b"

type_synonym ('w, 'b) state = "'w \<times> 'b call list"

type_synonym ('w, 'b, 'a) action = "('w, 'b) state \<Rightarrow> 'a result \<times> ('w, 'b) state"

definition client_Get ::
  "('w, 'b) concertoAPIServiceREST \<Rightarrow> string \<Rightarrow> ('w, 'b) state \<Rightarrow> 'b response \<times> ('w, 'b) state" where
  "client_Get c path s =
     (case Get c path (fst s) of (r, w') \<Rightarrow> (r, (w', snd s @ [GET path])))"

definition client_Post ::
  "('w, 'b) concertoAPIServiceREST \<Rightarrow> string \<Rightarrow> 'b \<Rightarrow> ('w, 'b) state \<Rightarrow> 'b response \<times> ('w, 'b) state" where
  "client_Post c path json s =
     (case Post c path json (fst s) of (r, w') \<Rightarrow> (r, (w', snd s @ [POST path json])))"

definition client_Delete ::
  "('w, 'b) concertoAPIServiceREST \<Rightarrow> string \<Rightarrow> ('w, 'b) state \<Rightarrow> 'b response \<times> ('w, 'b) state" where
  "client_Delete c path s =
     (case Delete c path (fst s) of (r, w') \<Rightarrow> (r, (w', snd s @ [DELETE path])))"

text \<open>Sequencing: an error or a panic of the first action ends the run.\<close>

definition ret :: "'a \<Rightarrow> ('w, 'b, 'a) action" where
  "ret x s = (Return x, s)"

definition andThen ::
  "('w, 'b, 'a) action \<Rightarrow> ('a \<Rightarrow> ('w, 'b, 'c) action) \<Rightarrow> ('w, 'b, 'c) action" where
  "andThen m f s =
     (case m s of
        (Return x, s1) \<Rightarrow> f x s1
      | (Fail e, s1) \<Rightarrow> (Fail e, s1)
      | (Panic p, s1) \<Rightarrow> (Panic p, s1))"

text \<open>
  The request paths, as the code writes them with string literals,
  concatenation and \<open>Sprintf\<close>.
\<close>

definition ships_path :: string where
  "ships_path = ''/kaas/ships''"

definition load_balancers_path :: string where
  "load_balancers_path = ''/kaas/load_balancers''"

definition load_balancer_path :: "string \<Rightarrow> string" where
  "load_balancer_path lbId = ''/kaas/load_balancers/'' @ lbId"

definition nodes_path :: "string \<Rightarrow> string" where
  "nodes_path loadBalancerId = ''/kaas/load_balancers/'' @ loadBalancerId @ ''/nodes''"

definition node_path :: "string \<Rightarrow> string \<Rightarrow> string" where
  "node_path loadBalancerId nodeId =
     ''/kaas/load_balancers/'' @ loadBalancerId @ ''/nodes/'' @ nodeId"

section \<open>The API service over REST\<close>

definition toInstance :: "Ship \<Rightarrow> ConcertoInstance" where
  "toInstance s =
     \<lparr>inst_Id = ship_Id s, inst_Name = ship_Fqdn s, inst_PublicIP = ship_Public_ip s,
      inst_CPUs = ship_Cpus s, inst_Memory = ship_Memory s, inst_Storage = ship_Storage s\<rparr>"

definition GetInstanceList ::
  "('w, 'b) concertoAPIServiceREST \<Rightarrow> ('w, 'b, ConcertoInstance list) action" where
  "GetInstanceList c s =
     (case client_Get c ships_path s of
        ((data, status, err), s1) \<Rightarrow>
          (case err of
             Some e \<Rightarrow> (Fail e, s1)
           | None \<Rightarrow>
               if status = 404 then (Return [], s1)
               else (case unmarshal_ships c data of
                       None \<Rightarrow> (Fail JSONError, s1)
                     | Some ships \<Rightarrow> (Return (map toInstance ships), s1))))"

definition GetInstanceByName ::
  "('w, 'b) concertoAPIServiceREST \<Rightarrow> string \<Rightarrow> ('w, 'b, ConcertoInstance) action" where
  "GetInstanceByName c name =
     andThen (GetInstanceList c) (\<lambda>concertoInstances s.
       case find (\<lambda>instance. inst_Name instance = name) concertoInstances of
         Some instance \<Rightarrow> (Return instance, s)
       | None \<Rightarrow> (Fail InstanceNotFound, s))"

definition GetInstanceByIP ::
  "('w, 'b) concertoAPIServiceREST \<Rightarrow> string \<Rightarrow> ('w, 'b, ConcertoInstance) action" where
  "GetInstanceByIP c ip =
     andThen (GetInstanceList c) (\<lambda>concertoInstances s.
       case find (\<lambda>instance. inst_PublicIP instance = ip) concertoInstances of
         Some instance \<Rightarrow> (Return instance, s)
       | None \<Rightarrow> (Fail InstanceNotFound, s))"

definition GetLoadBalancerList ::
  "('w, 'b) concertoAPIServiceREST \<Rightarrow> ('w, 'b, ConcertoLoadBalancer list) action" where
  "GetLoadBalancerList c s =
     (case client_Get c load_balancers_path s of
        ((data, status, err), s1) \<Rightarrow>
          (case err of
             Some e \<Rightarrow> (Fail e, s1)
           | None \<Rightarrow>
               if status \<ge> 400 then (Fail (HTTPGetLoadBalancersError status), s1)
               else (case unmarshal_lbs c data of
                       None \<Rightarrow> (Fail JSONError, s1)
                     | Some lbs \<Rightarrow> (Return lbs, s1))))"

text \<open>The result is a pointer: \<open>None\<close> is the nil pointer.\<close>

definition GetLoadBalancerByName ::
  "('w, 'b) concertoAPIServiceREST \<Rightarrow> string \<Rightarrow> ('w, 'b, ConcertoLoadBalancer option) action" where
  "GetLoadBalancerByName c name =
     andThen (GetLoadBalancerList c) (\<lambda>concertoLBs.
       ret (find (\<lambda>lb. lb_Name lb = name) concertoLBs))"

definition DeleteLoadBalancerById ::
  "('w, 'b) concertoAPIServiceREST \<Rightarrow> string \<Rightarrow> ('w, 'b, unit) action" where
  "DeleteLoadBalancerById c lbId s =
     (case client_Delete c (load_balancer_path lbId) s of
        ((data, status, err), s1) \<Rightarrow>
          (case err of
             Some e \<Rightarrow> (Fail e, s1)
           | None \<Rightarrow>
               if status = 200 \<or> status = 204 then (Return (), s1)
               else (Fail LoadBalancerDeleteError, s1)))"

definition toNode :: "ConcertoInstance \<Rightarrow> ConcertoLoadBalancerNode" where
  "toNode ci = \<lparr>node_ID = [], node_IP = inst_PublicIP ci\<rparr>"

definition registerInstanceWithLoadBalancer ::
  "('w, 'b) concertoAPIServiceREST \<Rightarrow> string \<Rightarrow> string \<Rightarrow> ('w, 'b, unit) action" where
  "registerInstanceWithLoadBalancer c loadBalancerId ip =
     andThen (GetInstanceByIP c ip) (\<lambda>instance s.
       case client_Post c (nodes_path loadBalancerId) (marshal_node c (toNode instance)) s of
         ((body, status, err), s1) \<Rightarrow>
           (case err of
              Some e \<Rightarrow> (Fail e, s1)
            | None \<Rightarrow>
                if status \<noteq> 201 then (Fail LoadBalancerRegisterInstanceError, s1)
                else (Return (), s1)))"

fun RegisterInstancesWithLoadBalancer ::
  "('w, 'b) concertoAPIServiceREST \<Rightarrow> string \<Rightarrow> string list \<Rightarrow> ('w, 'b, unit) action" where
  "RegisterInstancesWithLoadBalancer c loadBalancerId [] s = (Return (), s)"
| "RegisterInstancesWithLoadBalancer c loadBalancerId (ip # ips) s =
     (case registerInstanceWithLoadBalancer c loadBalancerId ip s of
        (Return u, s1) \<Rightarrow> RegisterInstancesWithLoadBalancer c loadBalancerId ips s1
      | (Fail e, s1) \<Rightarrow> (Fail e, s1)
      | (Panic p, s1) \<Rightarrow> (Panic p, s1))"

definition GetLoadBalancerNodes ::
  "('w, 'b) concertoAPIServiceREST \<Rightarrow> string \<Rightarrow> ('w, 'b, ConcertoLoadBalancerNode list) action" where
  "GetLoadBalancerNodes c loadBalancerId s =
     (case client_Get c (nodes_path loadBalancerId) s of
        ((data, status, err), s1) \<Rightarrow>
          (case err of
             Some e \<Rightarrow> (Fail e, s1)
           | None \<Rightarrow>
               if status = 404 then (Fail (LoadBalancerNotFound loadBalancerId), s1)
               else (case unmarshal_nodes c data of
                       None \<Rightarrow> (Fail JSONError, s1)
                     | Some nodes \<Rightarrow> (Return nodes, s1))))"

definition GetLoadBalancerNodesAsIPs ::
  "('w, 'b) concertoAPIServiceREST \<Rightarrow> string \<Rightarrow> ('w, 'b, string list) action" where
  "GetLoadBalancerNodesAsIPs c loadBalancerId =
     andThen (GetLoadBalancerNodes c loadBalancerId) (\<lambda>nodes. ret (map node_IP nodes))"

definition GetNodeByIP ::
  "('w, 'b) concertoAPIServiceREST \<Rightarrow> string \<Rightarrow> string \<Rightarrow> ('w, 'b, ConcertoLoadBalancerNode) action" where
  "GetNodeByIP c loadBalancerId ip =
     andThen (GetLoadBalancerNodes c loadBalancerId) (\<lambda>lbNodes s.
       case find (\<lambda>node. node_IP node = ip) lbNodes of
         Some node \<Rightarrow> (Return node, s)
       | None \<Rightarrow> (Fail (NodeNotFound ip loadBalancerId), s))"

definition deregisterInstanceFromLoadBalancer ::
  "('w, 'b) concertoAPIServiceREST \<Rightarrow> string \<Rightarrow> string \<Rightarrow> ('w, 'b, unit) action" where
  "deregisterInstanceFromLoadBalancer c loadBalancerId ip =
     andThen (GetNodeByIP c loadBalancerId ip) (\<lambda>node s.
       case client_Delete c (node_path loadBalancerId (node_ID node)) s of
         ((data, status, err), s1) \<Rightarrow>
           (case err of
              Some e \<Rightarrow> (Fail e, s1)
            | None \<Rightarrow>
                if status = 200 \<or> status = 204 then (Return (), s1)
                else (Fail LoadBalancerDeregisterInstanceError, s1)))"

fun DeregisterInstancesFromLoadBalancer ::
  "('w, 'b) concertoAPIServiceREST \<Rightarrow> string \<Rightarrow> string list \<Rightarrow> ('w, 'b, unit) action" where
  "DeregisterInstancesFromLoadBalancer c loadBalancerId [] s = (Return (), s)"
| "DeregisterInstancesFromLoadBalancer c loadBalancerId (ip # ips) s =
     (case deregisterInstanceFromLoadBalancer c loadBalancerId ip s of
        (Return u, s1) \<Rightarrow> DeregisterInstancesFromLoadBalancer c loadBalancerId ips s1
      | (Fail e, s1) \<Rightarrow> (Fail e, s1)
      | (Panic p, s1) \<Rightarrow> (Panic p, s1))"

definition CreateLoadBalancer ::
  "('w, 'b) concertoAPIServiceREST \<Rightarrow> string \<Rightarrow> int \<Rightarrow> int \<Rightarrow> ('w, 'b, ConcertoLoadBalancer) action" where
  "CreateLoadBalancer c name port nodePort s =
     (let lb = \<lparr>lb_Id = [], lb_Name = name, lb_FQDN = name, lb_Port = port,
                lb_NodePort = nodePort, lb_Protocol = ''tcp''\<rparr>
      in case client_Post c load_balancers_path (marshal_lb c lb) s of
           ((data, status, err), s1) \<Rightarrow>
             (case err of
                Some e \<Rightarrow> (Fail e, s1)
              | None \<Rightarrow>
                  if status \<noteq> 201 then (Fail (HTTPCreateLoadBalancerError status name), s1)
                  else (case unmarshal_lb c data lb of
                          None \<Rightarrow> (Fail JSONError, s1)
                        | Some lb' \<Rightarrow> (Return lb', s1))))"

section \<open>The load balancer operations of the provider\<close>

definition toStatus :: "ConcertoLoadBalancer \<Rightarrow> LoadBalancerStatus" where
  "toStatus lb = [\<lparr>ing_IP = [], ing_Hostname = lb_FQDN lb\<rparr>]"

text \<open>The result is the status, a nil pointer when there is none, and the flag \<open>exists\<close>.\<close>

definition GetTCPLoadBalancer ::
  "('w, 'b) concertoAPIServiceREST \<Rightarrow> string \<Rightarrow> string \<Rightarrow>
     ('w, 'b, LoadBalancerStatus option \<times> bool) action" where
  "GetTCPLoadBalancer c name region =
     andThen (GetLoadBalancerByName c name) (\<lambda>lb.
       case lb of
         None \<Rightarrow> ret (None, False)
       | Some lb \<Rightarrow> ret (Some (toStatus lb), True))"

fun namesToIPs :: "ConcertoInstance list \<Rightarrow> string list \<Rightarrow> string list \<Rightarrow> string list result" where
  "namesToIPs instances ips [] = Return ips"
| "namesToIPs instances ips (name # hosts) =
     (case find (\<lambda>instance. inst_Name instance = name) instances of
        Some instance \<Rightarrow> namesToIPs instances (ips @ [inst_PublicIP instance]) hosts
      | None \<Rightarrow> Fail (CouldNotFindInstance name))"

definition hostsNamesToIPs ::
  "('w, 'b) concertoAPIServiceREST \<Rightarrow> string list \<Rightarrow> ('w, 'b, string list) action" where
  "hostsNamesToIPs c hosts s =
     (case GetInstanceList c s of
        (Return instances, s1) \<Rightarrow> (namesToIPs instances [] hosts, s1)
      | (Fail e, s1) \<Rightarrow> (Fail (NamesToIPsError e), s1)
      | (Panic p, s1) \<Rightarrow> (Panic p, s1))"

definition subtractStringArrays :: "string list \<Rightarrow> string list \<Rightarrow> string list" where
  \<comment> \<open>Modelled from the spec: \<open>subtractStringArrays\<close> is called by
      \<open>UpdateTCPLoadBalancer\<close> but its definition is not among the sources. The spec
      describes it as the plain set difference of its first argument and its second,
      with no ordering requirement and no removal of duplicates.\<close>
  "subtractStringArrays a b = filter (\<lambda>v. v \<notin> set b) a"

definition UpdateTCPLoadBalancer ::
  "('w, 'b) concertoAPIServiceREST \<Rightarrow> string \<Rightarrow> string \<Rightarrow> string list \<Rightarrow> ('w, 'b, unit) action" where
  "UpdateTCPLoadBalancer c name region hosts =
     andThen (GetLoadBalancerByName c name) (\<lambda>lb.
       case lb of
         None \<Rightarrow> (\<lambda>s. (Panic NilPointerDereference, s))
       | Some lb \<Rightarrow>
           andThen (GetLoadBalancerNodesAsIPs c (lb_Id lb)) (\<lambda>currentNodes.
           andThen (hostsNamesToIPs c hosts) (\<lambda>wantedNodes.
             let nodesToRemove = subtractStringArrays currentNodes wantedNodes;
                 nodesToAdd = subtractStringArrays wantedNodes currentNodes
             in andThen (DeregisterInstancesFromLoadBalancer c (lb_Id lb) nodesToRemove) (\<lambda>u.
                andThen (RegisterInstancesWithLoadBalancer c (lb_Id lb) nodesToAdd) (\<lambda>u.
                ret ())))))"

text \<open>
  The ports are pointers to \<open>api.ServicePort\<close>: \<open>None\<close> is a nil pointer, and
  \<open>ports[0]\<close> panics on an empty slice.
\<close>

definition createTCPLoadBalancer ::
  "('w, 'b) concertoAPIServiceREST \<Rightarrow> string \<Rightarrow> ServicePort option list \<Rightarrow> string list \<Rightarrow>
     ('w, 'b, ConcertoLoadBalancer) action" where
  "createTCPLoadBalancer c name ports hosts =
     (case ports of
        [] \<Rightarrow> (\<lambda>s. (Panic IndexOutOfRange, s))
      | None # rest \<Rightarrow> (\<lambda>s. (Panic NilPointerDereference, s))
      | Some p # rest \<Rightarrow>
          andThen (CreateLoadBalancer c name (sp_Port p) (sp_NodePort p)) (\<lambda>lb.
            if length hosts > 0 then
              andThen (hostsNamesToIPs c hosts) (\<lambda>ipAddresses.
              andThen (RegisterInstancesWithLoadBalancer c (lb_Id lb) ipAddresses) (\<lambda>u.
              ret lb))
            else ret lb))"

text \<open>The explicit address is a \<open>net.IP\<close>, a byte slice: \<open>None\<close> is nil.\<close>

definition EnsureTCPLoadBalancer ::
  "('w, 'b) concertoAPIServiceREST \<Rightarrow> string \<Rightarrow> string \<Rightarrow> 8 word list option \<Rightarrow>
     ServicePort option list \<Rightarrow> string list \<Rightarrow> ServiceAffinity \<Rightarrow> ('w, 'b, LoadBalancerStatus) action" where
  "EnsureTCPLoadBalancer c name region loadBalancerIP ports hosts affinityType s =
     (if affinityType \<noteq> ServiceAffinityNone then (Fail LoadBalancerUnsupportedAffinityError, s)
      else if loadBalancerIP \<noteq> None then (Fail LoadBalancerUnsupportedExternalIPError, s)
      else if length ports \<noteq> 1 then (Fail LoadBalancerUnsupportedNumberOfPortsError, s)
      else
        (case GetLoadBalancerByName c name s of
           (Fail e, s1) \<Rightarrow> (Fail e, s1)
         | (Panic p, s1) \<Rightarrow> (Panic p, s1)
         | (Return None, s1) \<Rightarrow>
             (case createTCPLoadBalancer c name ports hosts s1 of
                (Return lb, s2) \<Rightarrow> (Return (toStatus lb), s2)
              | (Fail e, s2) \<Rightarrow> (Fail e, s2)
              | (Panic p, s2) \<Rightarrow> (Panic p, s2))
         | (Return (Some lb), s1) \<Rightarrow>
             (case UpdateTCPLoadBalancer c name region hosts s1 of
                (Return u, s2) \<Rightarrow> (Return (toStatus lb), s2)
              | (Fail e, s2) \<Rightarrow> (Fail e, s2)
              | (Panic p, s2) \<Rightarrow> (Panic p, s2))))"

definition EnsureTCPLoadBalancerDeleted ::
  "('w, 'b) concertoAPIServiceREST \<Rightarrow> string \<Rightarrow> string \<Rightarrow> ('w, 'b, unit) action" where
  "EnsureTCPLoadBalancerDeleted c name region =
     andThen (GetLoadBalancerByName c name) (\<lambda>lb.
       case lb of
         None \<Rightarrow> ret ()
       | Some lb \<Rightarrow> DeleteLoadBalancerById c (lb_Id lb))"

section \<open>The reconciliation plan in the spec's words\<close>

text \<open>
  The spec describes the update as a list of per-address operations: the
  removals \<open>actual - desired\<close> first, then the additions \<open>desired - actual\<close>,
  applied one after the other, the first failure ending the run. These
  definitions follow that description; the theorems below compare the code
  with them.
\<close>

datatype member_op = Deregister string | Register string

fun apply_op ::
  "('w, 'b) concertoAPIServiceREST \<Rightarrow> string \<Rightarrow> member_op \<Rightarrow> ('w, 'b, unit) action" where
  "apply_op c loadBalancerId (Deregister ip) = deregisterInstanceFromLoadBalancer c loadBalancerId ip"
| "apply_op c loadBalancerId (Register ip) = registerInstanceWithLoadBalancer c loadBalancerId ip"

fun apply_ops ::
  "('w, 'b) concertoAPIServiceREST \<Rightarrow> string \<Rightarrow> member_op list \<Rightarrow> ('w, 'b, unit) action" where
  "apply_ops c loadBalancerId [] s = (Return (), s)"
| "apply_ops c loadBalancerId (x # xs) s =
     (case apply_op c loadBalancerId x s of
        (Return u, s1) \<Rightarrow> apply_ops c loadBalancerId xs s1
      | (Fail e, s1) \<Rightarrow> (Fail e, s1)
      | (Panic p, s1) \<Rightarrow> (Panic p, s1))"

fun is_mutating :: "'b call \<Rightarrow> bool" where
  "is_mutating (GET p) = False"
| "is_mutating (POST p b) = True"
| "is_mutating (DELETE p) = True"

section \<open>Test doubles and a reference remote system\<close>

text \<open>
  Concrete bodies for running the code: a body is one of the documents the
  remote API exchanges. Decoding succeeds on a document of the expected shape.
\<close>

datatype wire =
    WShips "Ship list"
  | WLoadBalancers "ConcertoLoadBalancer list"
  | WNodes "ConcertoLoadBalancerNode list"
  | WLoadBalancer ConcertoLoadBalancer
  | WNode ConcertoLoadBalancerNode
  | WEmpty

fun wire_ships :: "wire \<Rightarrow> Ship list option" where
  "wire_ships (WShips xs) = Some xs"
| "wire_ships b = None"

fun wire_lbs :: "wire \<Rightarrow> ConcertoLoadBalancer list option" where
  "wire_lbs (WLoadBalancers xs) = Some xs"
| "wire_lbs b = None"

fun wire_nodes :: "wire \<Rightarrow> ConcertoLoadBalancerNode list option" where
  "wire_nodes (WNodes xs) = Some xs"
| "wire_nodes b = None"

fun wire_lb :: "wire \<Rightarrow> ConcertoLoadBalancer \<Rightarrow> ConcertoLoadBalancer option" where
  "wire_lb (WLoadBalancer lb') lb = Some lb'"
| "wire_lb b lb = None"

text \<open>
  \<open>RESTMock\<close> is the test double of the API service tests: every verb answers
  with the same body, status and error.
\<close>

definition RESTMock :: "wire \<Rightarrow> int \<Rightarrow> error option \<Rightarrow> (unit, wire) concertoAPIServiceREST" where
  "RESTMock body status err =
     \<lparr>Get = (\<lambda>path w. ((body, status, err), w)),
      Post = (\<lambda>path json w. ((body, status, err), w)),
      Delete = (\<lambda>path w. ((body, status, err), w)),
      unmarshal_ships = wire_ships, unmarshal_lbs = wire_lbs, unmarshal_nodes = wire_nodes,
      unmarshal_lb = wire_lb, marshal_node = WNode, marshal_lb = WLoadBalancer\<rparr>"

text \<open>
  The reference remote system. It is not code of the provider: it states the
  behaviour the spec assumes of the remote API (a completed create, register
  or delete is visible to the next listing), so that the membership after an
  operation can be stated. It holds the ships, the load balancers
  and, for each load balancer id, its nodes; it assigns the id of a new load
  balancer or node itself, a string longer than every id in use.
\<close>

record remote =
  r_ships :: "Ship list"
  r_lbs :: "ConcertoLoadBalancer list"
  r_nodes :: "string \<Rightarrow> ConcertoLoadBalancerNode list"

datatype route =
    RShips | RLoadBalancers | RLoadBalancer string | RNodes string | RNode string string | RUnknown

fun strip_prefix :: "string \<Rightarrow> string \<Rightarrow> string option" where
  "strip_prefix [] ys = Some ys"
| "strip_prefix (x # xs) [] = None"
| "strip_prefix (x # xs) (y # ys) = (if x = y then strip_prefix xs ys else None)"

definition route_of :: "string \<Rightarrow> route" where
  "route_of path =
     (if path = ''/kaas/ships'' then RShips
      else if path = ''/kaas/load_balancers'' then RLoadBalancers
      else case strip_prefix ''/kaas/load_balancers/'' path of
             None \<Rightarrow> RUnknown
           | Some rest \<Rightarrow>
               (let lbId = takeWhile (\<lambda>ch. ch \<noteq> CHR ''/'') rest;
                    tail = dropWhile (\<lambda>ch. ch \<noteq> CHR ''/'') rest
                in if tail = [] then RLoadBalancer lbId
                   else if tail = ''/nodes'' then RNodes lbId
                   else case strip_prefix ''/nodes/'' tail of
                          None \<Rightarrow> RUnknown
                        | Some nodeId \<Rightarrow> RNode lbId nodeId))"

definition fresh_id :: "string list \<Rightarrow> string" where
  "fresh_id used = replicate (Suc (foldr (\<lambda>x m. max (length x) m) used 0)) (CHR ''n'')"

definition remote_Get :: "string \<Rightarrow> remote \<Rightarrow> wire response \<times> remote" where
  "remote_Get path w =
     (case route_of path of
        RShips \<Rightarrow> ((WShips (r_ships w), 200, None), w)
      | RLoadBalancers \<Rightarrow> ((WLoadBalancers (r_lbs w), 200, None), w)
      | RNodes lbId \<Rightarrow>
          if lbId \<in> set (map lb_Id (r_lbs w)) then ((WNodes (r_nodes w lbId), 200, None), w)
          else ((WEmpty, 404, None), w)
      | other \<Rightarrow> ((WEmpty, 404, None), w))"

definition remote_Post :: "string \<Rightarrow> wire \<Rightarrow> remote \<Rightarrow> wire response \<times> remote" where
  "remote_Post path body w =
     (case route_of path of
        RLoadBalancers \<Rightarrow>
          (case body of
             WLoadBalancer lb \<Rightarrow>
               (let lb' = lb\<lparr>lb_Id := fresh_id (map lb_Id (r_lbs w))\<rparr>
                in ((WLoadBalancer lb', 201, None),
                    w\<lparr>r_lbs := r_lbs w @ [lb'], r_nodes := (r_nodes w)(lb_Id lb' := [])\<rparr>))
           | other \<Rightarrow> ((WEmpty, 400, None), w))
      | RNodes lbId \<Rightarrow>
          (case body of
             WNode n \<Rightarrow>
               if lbId \<in> set (map lb_Id (r_lbs w)) then
                 (let n' = n\<lparr>node_ID := fresh_id (map node_ID (r_nodes w lbId))\<rparr>
                  in ((WNode n', 201, None),
                      w\<lparr>r_nodes := (r_nodes w)(lbId := r_nodes w lbId @ [n'])\<rparr>))
               else ((WEmpty, 404, None), w)
           | other \<Rightarrow> ((WEmpty, 400, None), w))
      | other \<Rightarrow> ((WEmpty, 404, None), w))"

definition remote_Delete :: "string \<Rightarrow> remote \<Rightarrow> wire response \<times> remote" where
  "remote_Delete path w =
     (case route_of path of
        RLoadBalancer lbId \<Rightarrow>
          if lbId \<in> set (map lb_Id (r_lbs w)) then
            ((WEmpty, 204, None), w\<lparr>r_lbs := filter (\<lambda>lb. lb_Id lb \<noteq> lbId) (r_lbs w)\<rparr>)
          else ((WEmpty, 404, None), w)
      | RNode lbId nodeId \<Rightarrow>
          if lbId \<in> set (map lb_Id (r_lbs w)) \<and> nodeId \<in> set (map node_ID (r_nodes w lbId)) then
            ((WEmpty, 204, None),
             w\<lparr>r_nodes := (r_nodes w)(lbId := filter (\<lambda>n. node_ID n \<noteq> nodeId) (r_nodes w lbId))\<rparr>)
          else ((WEmpty, 404, None), w)
      | other \<Rightarrow> ((WEmpty, 404, None), w))"

definition remoteAPI :: "(remote, wire) concertoAPIServiceREST" where
  "remoteAPI =
     \<lparr>Get = remote_Get, Post = remote_Post, Delete = remote_Delete,
      unmarshal_ships = wire_ships, unmarshal_lbs = wire_lbs, unmarshal_nodes = wire_nodes,
      unmarshal_lb = wire_lb, marshal_node = WNode, marshal_lb = WLoadBalancer\<rparr>"

text \<open>
  The well-formed states of the reference remote: the ids of the load
  balancers are path segments (no slash) and distinct, and the node ids of
  each load balancer are distinct.
\<close>

definition no_slash :: "string \<Rightarrow> bool" where
  "no_slash x = (CHR ''/'' \<notin> set x)"

definition remote_wf :: "remote \<Rightarrow> bool" where
  "remote_wf w =
     (distinct (map lb_Id (r_lbs w)) \<and>
      list_all (\<lambda>lb. no_slash (lb_Id lb)) (r_lbs w) \<and>
      list_all (\<lambda>lb. distinct (map node_ID (r_nodes w (lb_Id lb)))) (r_lbs w))"

definition members :: "remote \<Rightarrow> string \<Rightarrow> string list" where
  "members w lbId = map node_IP (r_nodes w lbId)"

text \<open>The two updates the reference remote makes to a membership.\<close>

definition add_member :: "remote \<Rightarrow> string \<Rightarrow> string \<Rightarrow> remote" where
  "add_member w i ip =
     w\<lparr>r_nodes := (r_nodes w)(i := r_nodes w i @
          [\<lparr>node_ID = fresh_id (map node_ID (r_nodes w i)), node_IP = ip\<rparr>])\<rparr>"

definition remove_member :: "remote \<Rightarrow> string \<Rightarrow> string \<Rightarrow> remote" where
  "remove_member w i nid =
     w\<lparr>r_nodes := (r_nodes w)(i := filter (\<lambda>n. node_ID n \<noteq> nid) (r_nodes w i))\<rparr>"

text \<open>
  The scenario of the spec: a load balancer whose members are 1.2.3.4 and
  5.6.7.8, and two instances with the addresses 5.6.7.8 and 9.9.9.9.
\<close>

definition example_remote :: remote where
  "example_remote =
     \<lparr>r_ships =
        [\<lparr>ship_Id = ''s1'', ship_Fqdn = ''host-a'', ship_Name = ''a'', ship_Public_ip = ''5.6.7.8'',
          ship_Server_plan_id = ''p'', ship_Cpus = 1, ship_Memory = 1024, ship_Storage = 10\<rparr>,
         \<lparr>ship_Id = ''s2'', ship_Fqdn = ''host-b'', ship_Name = ''b'', ship_Public_ip = ''9.9.9.9'',
          ship_Server_plan_id = ''p'', ship_Cpus = 1, ship_Memory = 1024, ship_Storage = 10\<rparr>],
      r_lbs =
        [\<lparr>lb_Id = ''lb1'', lb_Name = ''web'', lb_FQDN = ''web.example'', lb_Port = 80,
          lb_NodePort = 30080, lb_Protocol = ''tcp''\<rparr>],
      r_nodes = (\<lambda>i. if i = ''lb1'' then
                   [\<lparr>node_ID = ''n1'', node_IP = ''1.2.3.4''\<rparr>,
                    \<lparr>node_ID = ''n2'', node_IP = ''5.6.7.8''\<rparr>] else [])\<rparr>"

text \<open>The same remote once the membership is the two instances' addresses.\<close>

definition converged_remote :: remote where
  "converged_remote =
     example_remote\<lparr>r_nodes := (\<lambda>i. if i = ''lb1'' then
        [\<lparr>node_ID = ''n2'', node_IP = ''5.6.7.8''\<rparr>,
         \<lparr>node_ID = ''n3'', node_IP = ''9.9.9.9''\<rparr>] else [])\<rparr>"

text \<open>
  The scenario with the two members listed in the other order: the member to
  remove is not the first node of the listing.
\<close>

definition reordered_remote :: remote where
  "reordered_remote =
     example_remote\<lparr>r_nodes := (\<lambda>i. if i = ''lb1'' then
        [\<lparr>node_ID = ''n2'', node_IP = ''5.6.7.8''\<rparr>,
         \<lparr>node_ID = ''n1'', node_IP = ''1.2.3.4''\<rparr>] else [])\<rparr>"

text \<open>The reference remote with a delete verb that always answers 500.\<close>

definition failing_delete_remoteAPI :: "(remote, wire) concertoAPIServiceREST" where
  "failing_delete_remoteAPI = remoteAPI\<lparr>Delete := (\<lambda>path w. ((WEmpty, 500, None), w))\<rparr>"


section \<open>Sequencing and the plan of per-address operations\<close>

lemma andThen_cases:
  "andThen m f s = (r, s') \<Longrightarrow>
     (\<exists>x s1. m s = (Return x, s1) \<and> f x s1 = (r, s')) \<or>
     (\<exists>e. m s = (Fail e, s') \<and> r = Fail e) \<or>
     (\<exists>p. m s = (Panic p, s') \<and> r = Panic p)"
  by (auto simp: andThen_def split: prod.splits result.splits)

lemma apply_ops_append:
  "apply_ops c i (xs @ ys) s =
     (case apply_ops c i xs s of
        (Return u, s1) \<Rightarrow> apply_ops c i ys s1
      | (Fail e, s1) \<Rightarrow> (Fail e, s1)
      | (Panic p, s1) \<Rightarrow> (Panic p, s1))"
  by (induction xs arbitrary: s) (auto split: prod.splits result.splits)

lemma apply_ops_Deregister:
  "apply_ops c i (map Deregister ips) s = DeregisterInstancesFromLoadBalancer c i ips s"
  by (induction ips arbitrary: s) (auto split: prod.splits result.splits)

lemma apply_ops_Register:
  "apply_ops c i (map Register ips) s = RegisterInstancesWithLoadBalancer c i ips s"
  by (induction ips arbitrary: s) (auto split: prod.splits result.splits)

lemma update_refines:
  assumes "GetLoadBalancerByName c name s = (Return (Some lb), s1)"
    and "GetLoadBalancerNodesAsIPs c (lb_Id lb) s1 = (Return M, s2)"
    and "hostsNamesToIPs c hosts s2 = (Return D, s3)"
  shows "UpdateTCPLoadBalancer c name region hosts s =
           apply_ops c (lb_Id lb)
             (map Deregister (subtractStringArrays M D) @ map Register (subtractStringArrays D M)) s3"
  using assms
  by (auto simp: UpdateTCPLoadBalancer_def andThen_def ret_def Let_def apply_ops_append
        apply_ops_Deregister apply_ops_Register split: prod.splits result.splits)

lemma update_lookups:
  assumes "UpdateTCPLoadBalancer c name region hosts s = (Return u, s')"
  shows "\<exists>lb M D s1 s2 s3.
           GetLoadBalancerByName c name s = (Return (Some lb), s1) \<and>
           GetLoadBalancerNodesAsIPs c (lb_Id lb) s1 = (Return M, s2) \<and>
           hostsNamesToIPs c hosts s2 = (Return D, s3)"
  using assms
  by (auto simp: UpdateTCPLoadBalancer_def andThen_def split: prod.splits result.splits option.splits)

section \<open>The remote calls each operation makes\<close>

lemma GetInstanceList_calls:
  "GetInstanceList c s = (r, s') \<Longrightarrow> snd s' = snd s @ [GET ships_path]"
  by (auto simp: GetInstanceList_def client_Get_def split: prod.splits option.splits if_splits)

lemma GetLoadBalancerList_calls:
  "GetLoadBalancerList c s = (r, s') \<Longrightarrow> snd s' = snd s @ [GET load_balancers_path]"
  by (auto simp: GetLoadBalancerList_def client_Get_def split: prod.splits option.splits if_splits)

lemma GetLoadBalancerByName_calls:
  "GetLoadBalancerByName c name s = (r, s') \<Longrightarrow> snd s' = snd s @ [GET load_balancers_path]"
  by (auto simp: GetLoadBalancerByName_def andThen_def ret_def
           dest: GetLoadBalancerList_calls split: prod.splits result.splits)

lemma GetLoadBalancerNodes_calls:
  "GetLoadBalancerNodes c i s = (r, s') \<Longrightarrow>
     snd s' = snd s @ [GET (nodes_path i)]"
  by (auto simp: GetLoadBalancerNodes_def client_Get_def split: prod.splits option.splits if_splits)

lemma GetLoadBalancerNodesAsIPs_calls:
  "GetLoadBalancerNodesAsIPs c i s = (r, s') \<Longrightarrow>
     snd s' = snd s @ [GET (nodes_path i)]"
  by (auto simp: GetLoadBalancerNodesAsIPs_def andThen_def ret_def
           dest: GetLoadBalancerNodes_calls split: prod.splits result.splits)

lemma hostsNamesToIPs_calls:
  "hostsNamesToIPs c hosts s = (r, s') \<Longrightarrow> snd s' = snd s @ [GET ships_path]"
  by (auto simp: hostsNamesToIPs_def dest: GetInstanceList_calls split: prod.splits result.splits)

lemma GetInstanceByIP_calls:
  "GetInstanceByIP c ip s = (r, s') \<Longrightarrow> snd s' = snd s @ [GET ships_path]"
  by (auto simp: GetInstanceByIP_def andThen_def
           dest: GetInstanceList_calls split: prod.splits result.splits option.splits)

lemma GetInstanceByIP_Return:
  "GetInstanceByIP c ip s = (Return instance, s') \<Longrightarrow> inst_PublicIP instance = ip"
  by (auto simp: GetInstanceByIP_def andThen_def find_Some_iff
           split: prod.splits result.splits option.splits)

lemma GetNodeByIP_calls:
  "GetNodeByIP c i ip s = (r, s') \<Longrightarrow>
     snd s' = snd s @ [GET (nodes_path i)]"
  by (auto simp: GetNodeByIP_def andThen_def
           dest: GetLoadBalancerNodes_calls split: prod.splits result.splits option.splits)

lemma GetNodeByIP_Return:
  "GetNodeByIP c i ip s = (Return node, s') \<Longrightarrow> node_IP node = ip"
  by (auto simp: GetNodeByIP_def andThen_def find_Some_iff
           split: prod.splits result.splits option.splits)

lemma register_calls:
  assumes "registerInstanceWithLoadBalancer c i ip s = (r, s')"
  shows "(r \<noteq> Return () \<and> snd s' = snd s @ [GET ships_path]) \<or>
         snd s' = snd s @ [GET ships_path,
            POST (nodes_path i)
                 (marshal_node c \<lparr>node_ID = [], node_IP = ip\<rparr>)]"
proof -
  from assms [unfolded registerInstanceWithLoadBalancer_def]
  consider (ok) inst s1 where "GetInstanceByIP c ip s = (Return inst, s1)"
      "(case client_Post c (nodes_path i) (marshal_node c (toNode inst)) s1 of
         ((body, status, err), s1) \<Rightarrow>
           (case err of
              Some e \<Rightarrow> (Fail e, s1)
            | None \<Rightarrow>
                if status \<noteq> 201 then (Fail LoadBalancerRegisterInstanceError, s1)
                else (Return (), s1))) = (r, s')"
    | (fail) e where "GetInstanceByIP c ip s = (Fail e, s')" "r = Fail e"
    | (panic) p where "GetInstanceByIP c ip s = (Panic p, s')" "r = Panic p"
    by (blast dest: andThen_cases)
  then show ?thesis
  proof cases
    case ok
    from ok(1) have ip: "inst_PublicIP inst = ip" and
      c1: "snd s1 = snd s @ [GET ships_path]"
      by (auto dest: GetInstanceByIP_Return GetInstanceByIP_calls)
    from ok(2) have "snd s' = snd s1 @ [POST (nodes_path i)
                 (marshal_node c (toNode inst))]"
      by (auto simp: client_Post_def split: prod.splits option.splits if_splits)
    with ip c1 show ?thesis by (simp add: toNode_def)
  next
    case fail
    then show ?thesis by (auto dest: GetInstanceByIP_calls)
  next
    case panic
    then show ?thesis by (auto dest: GetInstanceByIP_calls)
  qed
qed

lemma deregister_calls:
  assumes "deregisterInstanceFromLoadBalancer c i ip s = (r, s')"
  shows "(r \<noteq> Return () \<and> snd s' = snd s @ [GET (nodes_path i)]) \<or>
         (\<exists>node::ConcertoLoadBalancerNode. node_IP node = ip \<and>
            snd s' = snd s @ [GET (nodes_path i),
              DELETE (node_path i (node_ID node))])"
proof -
  from assms [unfolded deregisterInstanceFromLoadBalancer_def]
  consider (ok) node s1 where "GetNodeByIP c i ip s = (Return node, s1)"
      "(case client_Delete c (node_path i (node_ID node)) s1 of
         ((data, status, err), s1) \<Rightarrow>
           (case err of
              Some e \<Rightarrow> (Fail e, s1)
            | None \<Rightarrow>
                if status = 200 \<or> status = 204 then (Return (), s1)
                else (Fail LoadBalancerDeregisterInstanceError, s1))) = (r, s')"
    | (fail) e where "GetNodeByIP c i ip s = (Fail e, s')" "r = Fail e"
    | (panic) p where "GetNodeByIP c i ip s = (Panic p, s')" "r = Panic p"
    by (blast dest: andThen_cases)
  then show ?thesis
  proof cases
    case ok
    from ok(1) have ip: "node_IP node = ip" and
      c1: "snd s1 = snd s @ [GET (nodes_path i)]"
      by (auto dest: GetNodeByIP_Return GetNodeByIP_calls)
    from ok(2) have "snd s' = snd s1 @ [DELETE (node_path i (node_ID node))]"
      by (auto simp: client_Delete_def split: prod.splits option.splits if_splits)
    with ip c1 have "node_IP node = ip \<and>
        snd s' = snd s @ [GET (nodes_path i), DELETE (node_path i (node_ID node))]" by simp
    then show ?thesis by blast
  next
    case fail
    then show ?thesis by (auto dest: GetNodeByIP_calls)
  next
    case panic
    then show ?thesis by (auto dest: GetNodeByIP_calls)
  qed
qed

lemma Register_calls:
  "RegisterInstancesWithLoadBalancer c i ips s = (r, s') \<Longrightarrow>
     \<exists>new k. snd s' = snd s @ new \<and> k \<le> length ips \<and>
       filter is_mutating new =
         map (\<lambda>a. POST (nodes_path i) (marshal_node c \<lparr>node_ID = [], node_IP = a\<rparr>)) (take k ips) \<and>
       (r = Return () \<longrightarrow> k = length ips)"
proof (induction ips arbitrary: s)
  case Nil
  then show ?case by auto
next
  case (Cons ip ips)
  let ?P = "\<lambda>a. POST (nodes_path i) (marshal_node c \<lparr>node_ID = [], node_IP = a\<rparr>)"
  obtain r1 s1 where step: "registerInstanceWithLoadBalancer c i ip s = (r1, s1)"
    by (cases "registerInstanceWithLoadBalancer c i ip s")
  from register_calls [OF step] consider
      (get) "r1 \<noteq> Return ()" "snd s1 = snd s @ [GET ships_path]"
    | (post) "snd s1 = snd s @ [GET ships_path, ?P ip]" by blast
  then show ?case
  proof cases
    case get
    with step Cons.prems have "s' = s1" by (cases r1) auto
    with get(2) have "snd s' = snd s @ [GET ships_path] \<and> (0::nat) \<le> length (ip # ips) \<and>
       filter is_mutating [GET ships_path :: 'b call] = map ?P (take 0 (ip # ips)) \<and>
       (r = Return () \<longrightarrow> 0 = length (ip # ips))"
      using step Cons.prems get(1) by (cases r1) auto
    then show ?thesis by blast
  next
    case post
    show ?thesis
    proof (cases r1)
      case (Return u)
      with step Cons.prems have "RegisterInstancesWithLoadBalancer c i ips s1 = (r, s')" by simp
      from Cons.IH [OF this] obtain new k where
        ih: "snd s' = snd s1 @ new" "k \<le> length ips" "filter is_mutating new = map ?P (take k ips)"
            "r = Return () \<longrightarrow> k = length ips" by blast
      have "snd s' = snd s @ ([GET ships_path, ?P ip] @ new) \<and> Suc k \<le> length (ip # ips) \<and>
        filter is_mutating ([GET ships_path, ?P ip] @ new) = map ?P (take (Suc k) (ip # ips)) \<and>
        (r = Return () \<longrightarrow> Suc k = length (ip # ips))"
        using ih post by simp
      then show ?thesis by blast
    next
      case (Fail e)
      with step Cons.prems have "s' = s1" "r = Fail e" by auto
      with post have "snd s' = snd s @ [GET ships_path, ?P ip] \<and> (1::nat) \<le> length (ip # ips) \<and>
        filter is_mutating [GET ships_path, ?P ip] = map ?P (take 1 (ip # ips)) \<and>
        (r = Return () \<longrightarrow> 1 = length (ip # ips))" by simp
      then show ?thesis by blast
    next
      case (Panic p)
      with step Cons.prems have "s' = s1" "r = Panic p" by auto
      with post have "snd s' = snd s @ [GET ships_path, ?P ip] \<and> (1::nat) \<le> length (ip # ips) \<and>
        filter is_mutating [GET ships_path, ?P ip] = map ?P (take 1 (ip # ips)) \<and>
        (r = Return () \<longrightarrow> 1 = length (ip # ips))" by simp
      then show ?thesis by blast
    qed
  qed
qed

lemma Deregister_calls:
  "DeregisterInstancesFromLoadBalancer c i ips s = (r, s') \<Longrightarrow>
     \<exists>new (nodes :: ConcertoLoadBalancerNode list). snd s' = snd s @ new \<and>
       length nodes \<le> length ips \<and> map node_IP nodes = take (length nodes) ips \<and>
       filter is_mutating new = map (\<lambda>n. DELETE (node_path i (node_ID n))) nodes \<and>
       (r = Return () \<longrightarrow> length nodes = length ips)"
proof (induction ips arbitrary: s)
  case Nil
  then have "snd s' = snd s @ [] \<and>
       length ([] :: ConcertoLoadBalancerNode list) \<le> length ([] :: string list) \<and>
       map node_IP ([] :: ConcertoLoadBalancerNode list) = take (length ([] :: ConcertoLoadBalancerNode list)) [] \<and>
       filter is_mutating ([] :: 'b call list) = map (\<lambda>n. DELETE (node_path i (node_ID n))) ([] :: ConcertoLoadBalancerNode list) \<and>
       (r = Return () \<longrightarrow> length ([] :: ConcertoLoadBalancerNode list) = length ([] :: string list))" by auto
  then show ?case by blast
next
  case (Cons ip ips)
  let ?D = "\<lambda>n :: ConcertoLoadBalancerNode. DELETE (node_path i (node_ID n))"
  obtain r1 s1 where step: "deregisterInstanceFromLoadBalancer c i ip s = (r1, s1)"
    by (cases "deregisterInstanceFromLoadBalancer c i ip s")
  from deregister_calls [OF step] consider
      (get) "r1 \<noteq> Return ()" "snd s1 = snd s @ [GET (nodes_path i)]"
    | (del) node :: ConcertoLoadBalancerNode where "node_IP node = ip"
        "snd s1 = snd s @ [GET (nodes_path i), ?D node]" by blast
  then show ?case
  proof cases
    case get
    with step Cons.prems have "s' = s1" "r \<noteq> Return ()" by (cases r1; auto)+
    with get(2) have "snd s' = snd s @ [GET (nodes_path i)] \<and>
       length ([] :: ConcertoLoadBalancerNode list) \<le> length (ip # ips) \<and>
       map node_IP ([] :: ConcertoLoadBalancerNode list) = take (length ([] :: ConcertoLoadBalancerNode list)) (ip # ips) \<and>
       filter is_mutating [GET (nodes_path i) :: 'b call] = map ?D [] \<and>
       (r = Return () \<longrightarrow> length ([] :: ConcertoLoadBalancerNode list) = length (ip # ips))"
      by simp
    then show ?thesis by blast
  next
    case del
    show ?thesis
    proof (cases r1)
      case (Return u)
      with step Cons.prems have "DeregisterInstancesFromLoadBalancer c i ips s1 = (r, s')" by simp
      from Cons.IH [OF this] obtain new and nodes :: "ConcertoLoadBalancerNode list" where
        ih: "snd s' = snd s1 @ new" "length nodes \<le> length ips"
            "map node_IP nodes = take (length nodes) ips"
            "filter is_mutating new = map ?D nodes"
            "r = Return () \<longrightarrow> length nodes = length ips" by blast
      have "snd s' = snd s @ ([GET (nodes_path i), ?D node] @ new) \<and>
        length (node # nodes) \<le> length (ip # ips) \<and>
        map node_IP (node # nodes) = take (length (node # nodes)) (ip # ips) \<and>
        filter is_mutating ([GET (nodes_path i), ?D node] @ new) = map ?D (node # nodes) \<and>
        (r = Return () \<longrightarrow> length (node # nodes) = length (ip # ips))"
        using ih del by simp
      then show ?thesis by blast
    next
      case (Fail e)
      with step Cons.prems have "s' = s1" "r = Fail e" by auto
      with del have "snd s' = snd s @ [GET (nodes_path i), ?D node] \<and>
        length [node] \<le> length (ip # ips) \<and>
        map node_IP [node] = take (length [node]) (ip # ips) \<and>
        filter is_mutating [GET (nodes_path i), ?D node] = map ?D [node] \<and>
        (r = Return () \<longrightarrow> length [node] = length (ip # ips))" by simp
      then show ?thesis by blast
    next
      case (Panic p)
      with step Cons.prems have "s' = s1" "r = Panic p" by auto
      with del have "snd s' = snd s @ [GET (nodes_path i), ?D node] \<and>
        length [node] \<le> length (ip # ips) \<and>
        map node_IP [node] = take (length [node]) (ip # ips) \<and>
        filter is_mutating [GET (nodes_path i), ?D node] = map ?D [node] \<and>
        (r = Return () \<longrightarrow> length [node] = length (ip # ips))" by simp
      then show ?thesis by blast
    qed
  qed
qed

lemma plan_calls:
  assumes "apply_ops c i (map Deregister R @ map Register A) s = (r, s')"
  shows "\<exists>new (nodes :: ConcertoLoadBalancerNode list) k. snd s' = snd s @ new \<and>
       length nodes \<le> length R \<and> map node_IP nodes = take (length nodes) R \<and> k \<le> length A \<and>
       filter is_mutating new =
         map (\<lambda>n. DELETE (node_path i (node_ID n))) nodes @
         map (\<lambda>a. POST (nodes_path i) (marshal_node c \<lparr>node_ID = [], node_IP = a\<rparr>)) (take k A) \<and>
       (r = Return () \<longrightarrow> length nodes = length R \<and> k = length A)"
proof -
  let ?D = "\<lambda>n :: ConcertoLoadBalancerNode. DELETE (node_path i (node_ID n))"
  let ?P = "\<lambda>a. POST (nodes_path i) (marshal_node c \<lparr>node_ID = [], node_IP = a\<rparr>)"
  obtain r1 s1 where d: "DeregisterInstancesFromLoadBalancer c i R s = (r1, s1)"
    by (cases "DeregisterInstancesFromLoadBalancer c i R s")
  from Deregister_calls [OF d] obtain new1 and nodes :: "ConcertoLoadBalancerNode list" where
    n1: "snd s1 = snd s @ new1" "length nodes \<le> length R"
        "map node_IP nodes = take (length nodes) R"
        "filter is_mutating new1 = map ?D nodes"
        "r1 = Return () \<longrightarrow> length nodes = length R" by blast
  show ?thesis
  proof (cases "r1 = Return ()")
    case True
    with assms d have "RegisterInstancesWithLoadBalancer c i A s1 = (r, s')"
      by (simp add: apply_ops_append apply_ops_Deregister apply_ops_Register)
    from Register_calls [OF this] obtain new2 k where
      n2: "snd s' = snd s1 @ new2" "k \<le> length A" "filter is_mutating new2 = map ?P (take k A)"
          "r = Return () \<longrightarrow> k = length A" by blast
    have "snd s' = snd s @ (new1 @ new2) \<and>
       length nodes \<le> length R \<and> map node_IP nodes = take (length nodes) R \<and> k \<le> length A \<and>
       filter is_mutating (new1 @ new2) = map ?D nodes @ map ?P (take k A) \<and>
       (r = Return () \<longrightarrow> length nodes = length R \<and> k = length A)"
      using n1 n2 True by simp
    then show ?thesis by blast
  next
    case False
    with assms d have "r = r1 \<and> s' = s1"
      by (cases r1) (auto simp: apply_ops_append apply_ops_Deregister)
    with False n1 have "snd s' = snd s @ new1 \<and>
       length nodes \<le> length R \<and> map node_IP nodes = take (length nodes) R \<and> (0::nat) \<le> length A \<and>
       filter is_mutating new1 = map ?D nodes @ map ?P (take 0 A) \<and>
       (r = Return () \<longrightarrow> length nodes = length R \<and> 0 = length A)"
      by simp
    then show ?thesis by blast
  qed
qed

lemma update_cases:
  assumes "UpdateTCPLoadBalancer c name region hosts s = (r, s')"
  shows "(\<exists>lb M D s1 s2 s3.
           GetLoadBalancerByName c name s = (Return (Some lb), s1) \<and>
           GetLoadBalancerNodesAsIPs c (lb_Id lb) s1 = (Return M, s2) \<and>
           hostsNamesToIPs c hosts s2 = (Return D, s3)) \<or>
         (r \<noteq> Return () \<and> (\<exists>new. snd s' = snd s @ new \<and> filter is_mutating new = []))"
proof -
  obtain r1 s1 where 1: "GetLoadBalancerByName c name s = (r1, s1)"
    by (cases "GetLoadBalancerByName c name s")
  from GetLoadBalancerByName_calls [OF 1] have c1: "snd s1 = snd s @ [GET load_balancers_path]" .
  show ?thesis
  proof (cases r1)
    case (Fail e)
    with 1 assms have "r = Fail e" "s' = s1"
      by (simp_all add: UpdateTCPLoadBalancer_def andThen_def)
    with c1 have "r \<noteq> Return () \<and> snd s' = snd s @ [GET load_balancers_path] \<and>
      filter is_mutating [GET load_balancers_path :: 'b call] = []" by simp
    then show ?thesis by blast
  next
    case (Panic p)
    with 1 assms have "r = Panic p" "s' = s1"
      by (simp_all add: UpdateTCPLoadBalancer_def andThen_def)
    with c1 have "r \<noteq> Return () \<and> snd s' = snd s @ [GET load_balancers_path] \<and>
      filter is_mutating [GET load_balancers_path :: 'b call] = []" by simp
    then show ?thesis by blast
  next
    case (Return lbo)
    show ?thesis
    proof (cases lbo)
      case None
      with Return 1 assms have "r = Panic NilPointerDereference" "s' = s1"
        by (simp_all add: UpdateTCPLoadBalancer_def andThen_def)
      with c1 have "r \<noteq> Return () \<and> snd s' = snd s @ [GET load_balancers_path] \<and>
        filter is_mutating [GET load_balancers_path :: 'b call] = []" by simp
      then show ?thesis by blast
    next
      case (Some lb)
      obtain r2 s2 where 2: "GetLoadBalancerNodesAsIPs c (lb_Id lb) s1 = (r2, s2)"
        by (cases "GetLoadBalancerNodesAsIPs c (lb_Id lb) s1")
      from GetLoadBalancerNodesAsIPs_calls [OF 2] c1
      have c2: "snd s2 = snd s @ [GET load_balancers_path, GET (nodes_path (lb_Id lb))]" by simp
      note r1 = \<open>r1 = Return lbo\<close>
      show ?thesis
      proof (cases r2)
        case (Return M)
        obtain r3 s3 where 3: "hostsNamesToIPs c hosts s2 = (r3, s3)"
          by (cases "hostsNamesToIPs c hosts s2")
        from hostsNamesToIPs_calls [OF 3] c2
        have c3: "snd s3 = snd s @ [GET load_balancers_path, GET (nodes_path (lb_Id lb)), GET ships_path]"
          by simp
        show ?thesis
        proof (cases r3)
          case (Return D)
          with 1 2 3 \<open>r1 = Return lbo\<close> Some \<open>r2 = Return M\<close> show ?thesis by blast
        next
          case (Fail e)
          with 1 2 3 \<open>r1 = Return lbo\<close> Some \<open>r2 = Return M\<close> assms
          have "r = Fail e" "s' = s3" by (simp_all add: UpdateTCPLoadBalancer_def andThen_def)
          with c3 have "r \<noteq> Return () \<and>
            snd s' = snd s @ [GET load_balancers_path, GET (nodes_path (lb_Id lb)), GET ships_path] \<and>
            filter is_mutating [GET load_balancers_path :: 'b call, GET (nodes_path (lb_Id lb)), GET ships_path] = []"
            by simp
          then show ?thesis by blast
        next
          case (Panic p)
          with 1 2 3 \<open>r1 = Return lbo\<close> Some \<open>r2 = Return M\<close> assms
          have "r = Panic p" "s' = s3" by (simp_all add: UpdateTCPLoadBalancer_def andThen_def)
          with c3 have "r \<noteq> Return () \<and>
            snd s' = snd s @ [GET load_balancers_path, GET (nodes_path (lb_Id lb)), GET ships_path] \<and>
            filter is_mutating [GET load_balancers_path :: 'b call, GET (nodes_path (lb_Id lb)), GET ships_path] = []"
            by simp
          then show ?thesis by blast
        qed
      next
        case (Fail e)
        with 1 2 r1 Some assms have "r = Fail e" "s' = s2"
          by (simp_all add: UpdateTCPLoadBalancer_def andThen_def)
        with c2 have "r \<noteq> Return () \<and>
            snd s' = snd s @ [GET load_balancers_path, GET (nodes_path (lb_Id lb))] \<and>
            filter is_mutating [GET load_balancers_path :: 'b call, GET (nodes_path (lb_Id lb))] = []"
          by simp
        then show ?thesis by blast
      next
        case (Panic p)
        with 1 2 r1 Some assms have "r = Panic p" "s' = s2"
          by (simp_all add: UpdateTCPLoadBalancer_def andThen_def)
        with c2 have "r \<noteq> Return () \<and>
            snd s' = snd s @ [GET load_balancers_path, GET (nodes_path (lb_Id lb))] \<and>
            filter is_mutating [GET load_balancers_path :: 'b call, GET (nodes_path (lb_Id lb))] = []"
          by simp
        then show ?thesis by blast
      qed
    qed
  qed
qed

lemma lookups_calls:
  assumes "GetLoadBalancerByName c name s = (Return (Some lb), s1)"
    and "GetLoadBalancerNodesAsIPs c (lb_Id lb) s1 = (Return M, s2)"
    and "hostsNamesToIPs c hosts s2 = (Return D, s3)"
  shows "snd s3 = snd s @ [GET load_balancers_path, GET (nodes_path (lb_Id lb)), GET ships_path]"
  using GetLoadBalancerByName_calls [OF assms(1)] GetLoadBalancerNodesAsIPs_calls [OF assms(2)]
    hostsNamesToIPs_calls [OF assms(3)] by simp

lemma apply_ops_fail_at:
  assumes "k < length ops" "apply_ops c i (take k ops) s = (Return (), sk)"
    "apply_op c i (ops ! k) sk = (Fail e, s')"
  shows "apply_ops c i ops s = (Fail e, s')"
proof -
  have "ops = take k ops @ (ops ! k) # drop (Suc k) ops"
    using assms(1) by (simp add: id_take_nth_drop)
  then have "apply_ops c i ops s = apply_ops c i (take k ops @ (ops ! k) # drop (Suc k) ops) s"
    by simp
  also have "\<dots> = (Fail e, s')"
    using assms(2,3) by (simp add: apply_ops_append)
  finally show ?thesis .
qed

section \<open>The provider on the reference remote system\<close>

lemma takeWhile_segment:
  "no_slash i \<Longrightarrow> takeWhile (\<lambda>ch. ch \<noteq> CHR ''/'') (i @ CHR ''/'' # r) = i"
  by (induction i) (auto simp: no_slash_def)

lemma dropWhile_segment:
  "no_slash i \<Longrightarrow> dropWhile (\<lambda>ch. ch \<noteq> CHR ''/'') (i @ CHR ''/'' # r) = CHR ''/'' # r"
  by (induction i) (auto simp: no_slash_def)

lemma takeWhile_last_segment:
  "no_slash i \<Longrightarrow> takeWhile (\<lambda>ch. ch \<noteq> CHR ''/'') i = i"
  by (induction i) (auto simp: no_slash_def)

lemma dropWhile_last_segment:
  "no_slash i \<Longrightarrow> dropWhile (\<lambda>ch. ch \<noteq> CHR ''/'') i = []"
  by (induction i) (auto simp: no_slash_def)

lemma route_ships: "route_of ships_path = RShips"
  by (simp add: route_of_def ships_path_def)

lemma route_load_balancers: "route_of load_balancers_path = RLoadBalancers"
  by (simp add: route_of_def load_balancers_path_def)

lemma route_load_balancer: "no_slash i \<Longrightarrow> route_of (load_balancer_path i) = RLoadBalancer i"
  by (simp add: route_of_def load_balancer_path_def Let_def takeWhile_last_segment
        dropWhile_last_segment)

lemma route_nodes: "no_slash i \<Longrightarrow> route_of (nodes_path i) = RNodes i"
  by (simp add: route_of_def nodes_path_def Let_def takeWhile_segment dropWhile_segment)

lemma route_node: "no_slash i \<Longrightarrow> route_of (node_path i n) = RNode i n"
  by (simp add: route_of_def node_path_def Let_def takeWhile_segment dropWhile_segment)

lemma remote_GetLoadBalancerList:
  "GetLoadBalancerList remoteAPI (w, cs) = (Return (r_lbs w), (w, cs @ [GET load_balancers_path]))"
  by (simp add: GetLoadBalancerList_def client_Get_def remoteAPI_def remote_Get_def
        route_load_balancers)

lemma remote_GetLoadBalancerByName:
  "GetLoadBalancerByName remoteAPI name (w, cs) =
     (Return (find (\<lambda>lb. lb_Name lb = name) (r_lbs w)), (w, cs @ [GET load_balancers_path]))"
  by (simp add: GetLoadBalancerByName_def andThen_def ret_def remote_GetLoadBalancerList)

lemma remote_GetInstanceList:
  "GetInstanceList remoteAPI (w, cs) =
     (Return (map toInstance (r_ships w)), (w, cs @ [GET ships_path]))"
  by (simp add: GetInstanceList_def client_Get_def remoteAPI_def remote_Get_def route_ships)

lemma remote_hostsNamesToIPs:
  "hostsNamesToIPs remoteAPI hosts (w, cs) =
     (namesToIPs (map toInstance (r_ships w)) [] hosts, (w, cs @ [GET ships_path]))"
  by (simp add: hostsNamesToIPs_def remote_GetInstanceList)

lemma remote_GetLoadBalancerNodes:
  "no_slash i \<Longrightarrow> i \<in> set (map lb_Id (r_lbs w)) \<Longrightarrow>
   GetLoadBalancerNodes remoteAPI i (w, cs) = (Return (r_nodes w i), (w, cs @ [GET (nodes_path i)]))"
  by (simp add: GetLoadBalancerNodes_def client_Get_def remoteAPI_def remote_Get_def route_nodes)

lemma remote_GetLoadBalancerNodesAsIPs:
  "no_slash i \<Longrightarrow> i \<in> set (map lb_Id (r_lbs w)) \<Longrightarrow>
   GetLoadBalancerNodesAsIPs remoteAPI i (w, cs) = (Return (members w i), (w, cs @ [GET (nodes_path i)]))"
  by (simp add: GetLoadBalancerNodesAsIPs_def andThen_def ret_def remote_GetLoadBalancerNodes
        members_def)

lemma find_PublicIP:
  "ip \<in> set (map ship_Public_ip ships) \<Longrightarrow>
   \<exists>inst. find (\<lambda>instance. inst_PublicIP instance = ip) (map toInstance ships) = Some inst \<and>
          inst_PublicIP inst = ip"
  by (induction ships) (auto simp: toInstance_def)

lemma remote_register:
  assumes "no_slash i" "i \<in> set (map lb_Id (r_lbs w))" "ip \<in> set (map ship_Public_ip (r_ships w))"
  shows "registerInstanceWithLoadBalancer remoteAPI i ip (w, cs) =
     (Return (), (add_member w i ip,
        cs @ [GET ships_path, POST (nodes_path i) (WNode \<lparr>node_ID = [], node_IP = ip\<rparr>)]))"
proof -
  from find_PublicIP [OF assms(3)] obtain inst where
    f: "find (\<lambda>instance. inst_PublicIP instance = ip) (map toInstance (r_ships w)) = Some inst"
      "inst_PublicIP inst = ip" by blast
  have g: "GetInstanceByIP remoteAPI ip (w, cs) = (Return inst, (w, cs @ [GET ships_path]))"
    by (simp add: GetInstanceByIP_def andThen_def remote_GetInstanceList f)
  have p: "client_Post remoteAPI (nodes_path i) (WNode \<lparr>node_ID = [], node_IP = ip\<rparr>) (w, cs @ [GET ships_path])
     = ((WNode \<lparr>node_ID = fresh_id (map node_ID (r_nodes w i)), node_IP = ip\<rparr>, 201, None),
        (add_member w i ip, cs @ [GET ships_path, POST (nodes_path i) (WNode \<lparr>node_ID = [], node_IP = ip\<rparr>)]))"
    using assms(1,2)
    by (simp add: client_Post_def remoteAPI_def remote_Post_def route_nodes add_member_def Let_def)
  have m: "marshal_node remoteAPI (toNode inst) = WNode \<lparr>node_ID = [], node_IP = ip\<rparr>"
    by (simp add: remoteAPI_def toNode_def f(2))
  show ?thesis
    by (simp add: registerInstanceWithLoadBalancer_def andThen_def g m p)
qed

lemma find_Some_IP:
  "find (\<lambda>node. node_IP node = ip) ns = Some n \<Longrightarrow> n \<in> set ns \<and> node_IP n = ip"
  by (auto simp: find_Some_iff)

lemma remote_deregister:
  assumes "no_slash i" "i \<in> set (map lb_Id (r_lbs w))"
    "find (\<lambda>node. node_IP node = ip) (r_nodes w i) = Some n"
  shows "deregisterInstanceFromLoadBalancer remoteAPI i ip (w, cs) =
     (Return (), (remove_member w i (node_ID n),
        cs @ [GET (nodes_path i), DELETE (node_path i (node_ID n))]))"
proof -
  have g: "GetNodeByIP remoteAPI i ip (w, cs) = (Return n, (w, cs @ [GET (nodes_path i)]))"
    using assms by (simp add: GetNodeByIP_def andThen_def remote_GetLoadBalancerNodes)
  from find_Some_IP [OF assms(3)] have "node_ID n \<in> set (map node_ID (r_nodes w i))" by auto
  then have d: "client_Delete remoteAPI (node_path i (node_ID n)) (w, cs @ [GET (nodes_path i)])
     = ((WEmpty, 204, None), (remove_member w i (node_ID n),
          cs @ [GET (nodes_path i), DELETE (node_path i (node_ID n))]))"
    using assms(1,2)
    by (simp add: client_Delete_def remoteAPI_def remote_Delete_def route_node remove_member_def)
  show ?thesis
    by (simp add: deregisterInstanceFromLoadBalancer_def andThen_def g d)
qed

lemma fresh_id_longer: "x \<in> set used \<Longrightarrow> length x < length (fresh_id used)"
  by (induction used) (auto simp: fresh_id_def)

lemma fresh_id_new: "fresh_id used \<notin> set used"
  using fresh_id_longer by blast

lemma fresh_id_no_slash: "no_slash (fresh_id used)"
  by (simp add: fresh_id_def no_slash_def)

lemma add_member_simps:
  "r_ships (add_member w i ip) = r_ships w"
  "r_lbs (add_member w i ip) = r_lbs w"
  "map node_IP (r_nodes (add_member w i ip) i) = map node_IP (r_nodes w i) @ [ip]"
  "j \<noteq> i \<Longrightarrow> r_nodes (add_member w i ip) j = r_nodes w j"
  by (simp_all add: add_member_def)

lemma add_member_distinct:
  "distinct (map node_ID (r_nodes w i)) \<Longrightarrow> distinct (map node_ID (r_nodes (add_member w i ip) i))"
  using fresh_id_new [of "map node_ID (r_nodes w i)"] by (simp add: add_member_def)

lemma remote_Register:
  assumes "no_slash i" "i \<in> set (map lb_Id (r_lbs w))"
    "set ips \<subseteq> set (map ship_Public_ip (r_ships w))"
    "distinct (map node_ID (r_nodes w i))"
  shows "\<exists>w'. RegisterInstancesWithLoadBalancer remoteAPI i ips (w, cs) =
             (Return (), (w', cs @ concat (map (\<lambda>a. [GET ships_path,
                POST (nodes_path i) (WNode \<lparr>node_ID = [], node_IP = a\<rparr>)]) ips))) \<and>
           r_ships w' = r_ships w \<and> r_lbs w' = r_lbs w \<and>
           map node_IP (r_nodes w' i) = map node_IP (r_nodes w i) @ ips \<and>
           (\<forall>j. j \<noteq> i \<longrightarrow> r_nodes w' j = r_nodes w j) \<and>
           distinct (map node_ID (r_nodes w' i))"
  using assms
proof (induction ips arbitrary: w cs)
  case Nil
  then show ?case by simp
next
  case (Cons ip ips)
  let ?w1 = "add_member w i ip"
  let ?cs1 = "cs @ [GET ships_path, POST (nodes_path i) (WNode \<lparr>node_ID = [], node_IP = ip\<rparr>)]"
  have step: "registerInstanceWithLoadBalancer remoteAPI i ip (w, cs) = (Return (), (?w1, ?cs1))"
    using Cons.prems by (intro remote_register) auto
  let ?calls = "\<lambda>ips. concat (map (\<lambda>a. [GET ships_path,
                POST (nodes_path i) (WNode \<lparr>node_ID = [], node_IP = a\<rparr>)]) ips)"
  have "\<exists>w'. RegisterInstancesWithLoadBalancer remoteAPI i ips (?w1, ?cs1) = (Return (), (w', ?cs1 @ ?calls ips)) \<and>
           r_ships w' = r_ships ?w1 \<and> r_lbs w' = r_lbs ?w1 \<and>
           map node_IP (r_nodes w' i) = map node_IP (r_nodes ?w1 i) @ ips \<and>
           (\<forall>j. j \<noteq> i \<longrightarrow> r_nodes w' j = r_nodes ?w1 j) \<and>
           distinct (map node_ID (r_nodes w' i))"
    using Cons.prems by (intro Cons.IH) (auto simp: add_member_simps add_member_distinct)
  then obtain w' where
    ih: "RegisterInstancesWithLoadBalancer remoteAPI i ips (?w1, ?cs1) = (Return (), (w', ?cs1 @ ?calls ips))"
      "r_ships w' = r_ships ?w1" "r_lbs w' = r_lbs ?w1"
      "map node_IP (r_nodes w' i) = map node_IP (r_nodes ?w1 i) @ ips"
      "\<forall>j. j \<noteq> i \<longrightarrow> r_nodes w' j = r_nodes ?w1 j"
      "distinct (map node_ID (r_nodes w' i))" by blast
  have "RegisterInstancesWithLoadBalancer remoteAPI i (ip # ips) (w, cs) = (Return (), (w', cs @ ?calls (ip # ips))) \<and>
           r_ships w' = r_ships w \<and> r_lbs w' = r_lbs w \<and>
           map node_IP (r_nodes w' i) = map node_IP (r_nodes w i) @ ip # ips \<and>
           (\<forall>j. j \<noteq> i \<longrightarrow> r_nodes w' j = r_nodes w j) \<and>
           distinct (map node_ID (r_nodes w' i))"
    using step ih by (simp add: add_member_simps)
  then show ?case by blast
qed

lemma remove_member_simps:
  "r_ships (remove_member w i nid) = r_ships w"
  "r_lbs (remove_member w i nid) = r_lbs w"
  "r_nodes (remove_member w i nid) i = filter (\<lambda>n. node_ID n \<noteq> nid) (r_nodes w i)"
  "j \<noteq> i \<Longrightarrow> r_nodes (remove_member w i nid) j = r_nodes w j"
  by (simp_all add: remove_member_def)

lemma filter_ID_distinct:
  "distinct (map node_ID (pre @ n # post)) \<Longrightarrow>
   filter (\<lambda>x. node_ID x \<noteq> node_ID n) (pre @ n # post) = pre @ post"
proof -
  assume d: "distinct (map node_ID (pre @ n # post))"
  then have "node_ID n \<notin> node_ID ` set pre" "node_ID n \<notin> node_ID ` set post" by auto
  then have "\<forall>x \<in> set pre \<union> set post. node_ID x \<noteq> node_ID n" by (metis UnE imageI)
  then show ?thesis by (simp add: filter_id_conv)
qed

lemma find_after_prefix:
  "\<forall>x \<in> set pre. \<not> P x \<Longrightarrow> P n \<Longrightarrow> find P (pre @ n # post) = Some n"
  by (induction pre) auto

lemma remote_Deregister:
  assumes "no_slash i" "i \<in> set (map lb_Id (r_lbs w))"
    "distinct (map node_ID (r_nodes w i))"
    "ips = filter (\<lambda>a. a \<notin> S) (map node_IP (r_nodes w i))"
  shows "\<exists>w' cs'. DeregisterInstancesFromLoadBalancer remoteAPI i ips (w, cs) = (Return (), (w', cs')) \<and>
           r_ships w' = r_ships w \<and> r_lbs w' = r_lbs w \<and>
           r_nodes w' i = filter (\<lambda>n. node_IP n \<in> S) (r_nodes w i) \<and>
           (\<forall>j. j \<noteq> i \<longrightarrow> r_nodes w' j = r_nodes w j)"
  using assms
proof (induction ips arbitrary: w cs)
  case Nil
  from Nil.prems(4) have "filter (\<lambda>a. a \<notin> S) (map node_IP (r_nodes w i)) = []" by simp
  then have "\<forall>n \<in> set (r_nodes w i). node_IP n \<in> S"
    by (auto simp: filter_empty_conv)
  then have "filter (\<lambda>n. node_IP n \<in> S) (r_nodes w i) = r_nodes w i"
    by (simp add: filter_id_conv)
  then show ?case by simp
next
  case (Cons ip ips)
  from Cons.prems(4) [symmetric] have "map node_IP (filter (\<lambda>n. node_IP n \<notin> S) (r_nodes w i)) = ip # ips"
    by (simp add: filter_map comp_def)
  then obtain n rest where
    nr: "filter (\<lambda>n. node_IP n \<notin> S) (r_nodes w i) = n # rest" "node_IP n = ip" "map node_IP rest = ips"
    by auto
  from nr(1) obtain pre post where
    split: "r_nodes w i = pre @ n # post" "\<forall>x \<in> set pre. \<not> node_IP x \<notin> S" "node_IP n \<notin> S"
      "rest = filter (\<lambda>n. node_IP n \<notin> S) post"
    by (auto simp: filter_eq_Cons_iff)
  have "find (\<lambda>node. node_IP node = ip) (r_nodes w i) = Some n"
    unfolding split(1) using split(2,3) nr(2) by (intro find_after_prefix) auto
  from remote_deregister [OF Cons.prems(1,2) this]
  have step: "deregisterInstanceFromLoadBalancer remoteAPI i ip (w, cs) =
     (Return (), (remove_member w i (node_ID n),
        cs @ [GET (nodes_path i), DELETE (node_path i (node_ID n))]))" .
  let ?w1 = "remove_member w i (node_ID n)"
  let ?cs1 = "cs @ [GET (nodes_path i), DELETE (node_path i (node_ID n))]"
  have "filter (\<lambda>x. node_ID x \<noteq> node_ID n) (pre @ n # post) = pre @ post"
    using Cons.prems(3) unfolding split(1) by (rule filter_ID_distinct)
  then have n1: "r_nodes ?w1 i = pre @ post"
    by (simp add: remove_member_simps split(1))
  have ips: "ips = filter (\<lambda>a. a \<notin> S) (map node_IP (r_nodes ?w1 i))"
    using split(2,4) nr(3) by (simp add: n1 filter_map comp_def filter_empty_conv)
  have d1: "distinct (map node_ID (r_nodes ?w1 i))"
    using Cons.prems(3) by (simp add: n1 split(1))
  have "\<exists>w' cs'. DeregisterInstancesFromLoadBalancer remoteAPI i ips (?w1, ?cs1) = (Return (), (w', cs')) \<and>
           r_ships w' = r_ships ?w1 \<and> r_lbs w' = r_lbs ?w1 \<and>
           r_nodes w' i = filter (\<lambda>n. node_IP n \<in> S) (r_nodes ?w1 i) \<and>
           (\<forall>j. j \<noteq> i \<longrightarrow> r_nodes w' j = r_nodes ?w1 j)"
    using Cons.prems(1,2) d1 ips by (intro Cons.IH) (simp_all add: remove_member_simps)
  then obtain w' cs' where
    ih: "DeregisterInstancesFromLoadBalancer remoteAPI i ips (?w1, ?cs1) = (Return (), (w', cs'))"
      "r_ships w' = r_ships ?w1" "r_lbs w' = r_lbs ?w1"
      "r_nodes w' i = filter (\<lambda>n. node_IP n \<in> S) (r_nodes ?w1 i)"
      "\<forall>j. j \<noteq> i \<longrightarrow> r_nodes w' j = r_nodes ?w1 j" by blast
  have e1: "r_nodes w' i = filter (\<lambda>n. node_IP n \<in> S) (pre @ post)"
    using ih(4) unfolding n1 .
  have e2: "r_nodes w' i = filter (\<lambda>n. node_IP n \<in> S) (r_nodes w i)"
    using e1 split(3) by (simp add: split(1))
  have e3: "\<forall>j. j \<noteq> i \<longrightarrow> r_nodes w' j = r_nodes w j"
    using ih(5) by (simp add: remove_member_simps)
  have e4: "DeregisterInstancesFromLoadBalancer remoteAPI i (ip # ips) (w, cs) = (Return (), (w', cs'))"
    using step ih(1) by simp
  have e5: "r_ships w' = r_ships w" "r_lbs w' = r_lbs w"
    using ih(2,3) by (simp_all add: remove_member_simps)
  from e2 e3 e4 e5 show ?case by blast
qed

lemma namesToIPs_subset:
  "namesToIPs instances acc hosts = Return D \<Longrightarrow>
     set D \<subseteq> set acc \<union> set (map inst_PublicIP instances)"
proof (induction hosts arbitrary: acc)
  case Nil
  then show ?case by auto
next
  case (Cons h hosts)
  then obtain inst where f: "find (\<lambda>instance. inst_Name instance = h) instances = Some inst"
    and r: "namesToIPs instances (acc @ [inst_PublicIP inst]) hosts = Return D"
    by (auto split: option.splits)
  from f have "inst \<in> set instances" by (auto simp: find_Some_iff)
  with Cons.IH [OF r] show ?case by auto
qed

lemma resolved_are_ships:
  "namesToIPs (map toInstance ships) [] hosts = Return D \<Longrightarrow> set D \<subseteq> set (map ship_Public_ip ships)"
  by (drule namesToIPs_subset) (auto simp: toInstance_def)

lemma find_in_lbs:
  "find (\<lambda>lb. lb_Name lb = name) lbs = Some lb \<Longrightarrow> lb \<in> set lbs \<and> lb_Name lb = name"
  by (auto simp: find_Some_iff)

lemma remote_wf_lb:
  assumes "remote_wf w" "lb \<in> set (r_lbs w)"
  shows "no_slash (lb_Id lb)" "lb_Id lb \<in> set (map lb_Id (r_lbs w))"
    "distinct (map node_ID (r_nodes w (lb_Id lb)))"
  using assms by (auto simp: remote_wf_def list_all_iff)

lemma remote_update:
  assumes wf: "remote_wf w"
    and lb: "find (\<lambda>lb. lb_Name lb = name) (r_lbs w) = Some lb"
    and res: "namesToIPs (map toInstance (r_ships w)) [] hosts = Return D"
  shows "\<exists>w1 cs1. UpdateTCPLoadBalancer remoteAPI name region hosts (w, cs) = (Return (), (w1, cs1)) \<and>
           r_ships w1 = r_ships w \<and> r_lbs w1 = r_lbs w \<and> remote_wf w1 \<and>
           members w1 (lb_Id lb) =
             filter (\<lambda>a. a \<in> set D) (members w (lb_Id lb)) @
             filter (\<lambda>a. a \<notin> set (members w (lb_Id lb))) D"
proof -
  let ?i = "lb_Id lb"
  let ?M = "members w ?i"
  from find_in_lbs [OF lb] have mem: "lb \<in> set (r_lbs w)" by simp
  note f = remote_wf_lb [OF wf mem]
  define cs3 where "cs3 = cs @ [GET load_balancers_path, GET (nodes_path ?i), GET ships_path]"
  have 1: "GetLoadBalancerByName remoteAPI name (w, cs) =
             (Return (Some lb), (w, cs @ [GET load_balancers_path]))"
    by (simp add: remote_GetLoadBalancerByName lb)
  have 2: "GetLoadBalancerNodesAsIPs remoteAPI ?i (w, cs @ [GET load_balancers_path]) =
             (Return ?M, (w, cs @ [GET load_balancers_path, GET (nodes_path ?i)]))"
    using remote_GetLoadBalancerNodesAsIPs [OF f(1,2), of "cs @ [GET load_balancers_path]"] by simp
  have 3: "hostsNamesToIPs remoteAPI hosts (w, cs @ [GET load_balancers_path, GET (nodes_path ?i)]) =
             (Return D, (w, cs3))"
    by (simp add: remote_hostsNamesToIPs res cs3_def)
  have upd: "UpdateTCPLoadBalancer remoteAPI name region hosts (w, cs) =
      apply_ops remoteAPI ?i
        (map Deregister (subtractStringArrays ?M D) @ map Register (subtractStringArrays D ?M)) (w, cs3)"
    by (rule update_refines [OF 1 2 3])
  have "subtractStringArrays ?M D = filter (\<lambda>a. a \<notin> set D) (map node_IP (r_nodes w ?i))"
    by (simp add: subtractStringArrays_def members_def)
  from remote_Deregister [OF f(1,2,3) this, of cs3] obtain w' cs' where
    d: "DeregisterInstancesFromLoadBalancer remoteAPI ?i (subtractStringArrays ?M D) (w, cs3) =
          (Return (), (w', cs'))"
      "r_ships w' = r_ships w" "r_lbs w' = r_lbs w"
      "r_nodes w' ?i = filter (\<lambda>n. node_IP n \<in> set D) (r_nodes w ?i)"
      "\<forall>j. j \<noteq> ?i \<longrightarrow> r_nodes w' j = r_nodes w j" by blast
  have a1: "?i \<in> set (map lb_Id (r_lbs w'))" using f(2) d(3) by simp
  have a2: "set (subtractStringArrays D ?M) \<subseteq> set (map ship_Public_ip (r_ships w'))"
    using resolved_are_ships [OF res] d(2) by (auto simp: subtractStringArrays_def)
  have a3: "distinct (map node_ID (r_nodes w' ?i))"
    using f(3) by (simp add: d(4) distinct_map_filter)
  from remote_Register [OF f(1) a1 a2 a3, of cs'] obtain w'' where
    r: "RegisterInstancesWithLoadBalancer remoteAPI ?i (subtractStringArrays D ?M) (w', cs') =
          (Return (), (w'', cs' @ concat (map (\<lambda>a. [GET ships_path,
                POST (nodes_path ?i) (WNode \<lparr>node_ID = [], node_IP = a\<rparr>)]) (subtractStringArrays D ?M))))"
      "r_ships w'' = r_ships w'" "r_lbs w'' = r_lbs w'"
      "map node_IP (r_nodes w'' ?i) = map node_IP (r_nodes w' ?i) @ subtractStringArrays D ?M"
      "\<forall>j. j \<noteq> ?i \<longrightarrow> r_nodes w'' j = r_nodes w' j"
      "distinct (map node_ID (r_nodes w'' ?i))" by blast
  let ?cs'' = "cs' @ concat (map (\<lambda>a. [GET ships_path,
                POST (nodes_path ?i) (WNode \<lparr>node_ID = [], node_IP = a\<rparr>)]) (subtractStringArrays D ?M))"
  have run: "UpdateTCPLoadBalancer remoteAPI name region hosts (w, cs) = (Return (), (w'', ?cs''))"
    by (simp add: upd apply_ops_append apply_ops_Deregister apply_ops_Register d(1) r(1))
  have wf'': "remote_wf w''"
  proof -
    have "distinct (map node_ID (r_nodes w'' (lb_Id x)))" if "x \<in> set (r_lbs w)" for x
    proof (cases "lb_Id x = ?i")
      case True
      then show ?thesis using r(6) by simp
    next
      case False
      then have "r_nodes w'' (lb_Id x) = r_nodes w (lb_Id x)" using r(5) d(5) by simp
      then show ?thesis using remote_wf_lb(3) [OF wf that] by simp
    qed
    then show ?thesis using wf by (simp add: remote_wf_def list_all_iff r(3) d(3))
  qed
  have mem'': "members w'' ?i = filter (\<lambda>a. a \<in> set D) ?M @ filter (\<lambda>a. a \<notin> set ?M) D"
    by (simp add: members_def r(4) d(4) filter_map comp_def subtractStringArrays_def)
  from run wf'' mem'' r(2,3) d(2,3) show ?thesis by auto
qed

lemma remote_update_noop:
  assumes wf: "remote_wf w"
    and lb: "find (\<lambda>lb. lb_Name lb = name) (r_lbs w) = Some lb"
    and res: "namesToIPs (map toInstance (r_ships w)) [] hosts = Return D"
    and same: "set (members w (lb_Id lb)) = set D"
  shows "UpdateTCPLoadBalancer remoteAPI name region hosts (w, cs) =
           (Return (), (w, cs @ [GET load_balancers_path, GET (nodes_path (lb_Id lb)), GET ships_path]))"
proof -
  let ?i = "lb_Id lb"
  let ?M = "members w ?i"
  from find_in_lbs [OF lb] have mem: "lb \<in> set (r_lbs w)" by simp
  note f = remote_wf_lb [OF wf mem]
  have 1: "GetLoadBalancerByName remoteAPI name (w, cs) =
             (Return (Some lb), (w, cs @ [GET load_balancers_path]))"
    by (simp add: remote_GetLoadBalancerByName lb)
  have 2: "GetLoadBalancerNodesAsIPs remoteAPI ?i (w, cs @ [GET load_balancers_path]) =
             (Return ?M, (w, cs @ [GET load_balancers_path, GET (nodes_path ?i)]))"
    using remote_GetLoadBalancerNodesAsIPs [OF f(1,2), of "cs @ [GET load_balancers_path]"] by simp
  have 3: "hostsNamesToIPs remoteAPI hosts (w, cs @ [GET load_balancers_path, GET (nodes_path ?i)]) =
             (Return D, (w, cs @ [GET load_balancers_path, GET (nodes_path ?i), GET ships_path]))"
    by (simp add: remote_hostsNamesToIPs res)
  have e: "subtractStringArrays ?M D = []" "subtractStringArrays D ?M = []"
    using same by (auto simp: subtractStringArrays_def filter_empty_conv)
  show ?thesis
    by (simp add: update_refines [OF 1 2 3] e)
qed

lemma deregister_found:
  assumes "deregisterInstanceFromLoadBalancer c i ip s = (Return u, s')"
  shows "\<exists>nodes s0 n. GetLoadBalancerNodes c i s = (Return nodes, s0) \<and>
           find (\<lambda>x. node_IP x = ip) nodes = Some n \<and>
           snd s' = snd s @ [GET (nodes_path i), DELETE (node_path i (node_ID n))]"
proof -
  from assms [unfolded deregisterInstanceFromLoadBalancer_def]
  obtain n s1 where g: "GetNodeByIP c i ip s = (Return n, s1)"
    and d: "(case client_Delete c (node_path i (node_ID n)) s1 of
         ((data, status, err), s1) \<Rightarrow>
           (case err of
              Some e \<Rightarrow> (Fail e, s1)
            | None \<Rightarrow>
                if status = 200 \<or> status = 204 then (Return (), s1)
                else (Fail LoadBalancerDeregisterInstanceError, s1))) = (Return u, s')"
    by (auto dest: andThen_cases)
  from g obtain nodes where l: "GetLoadBalancerNodes c i s = (Return nodes, s1)"
    and f: "find (\<lambda>x. node_IP x = ip) nodes = Some n"
    by (auto simp: GetNodeByIP_def andThen_def split: prod.splits result.splits option.splits)
  from GetLoadBalancerNodes_calls [OF l] have c1: "snd s1 = snd s @ [GET (nodes_path i)]" .
  from d have "snd s' = snd s1 @ [DELETE (node_path i (node_ID n))]"
    by (auto simp: client_Delete_def split: prod.splits option.splits if_splits)
  with c1 have "snd s' = snd s @ [GET (nodes_path i), DELETE (node_path i (node_ID n))]" by simp
  with l f show ?thesis by blast
qed

lemma Deregister_nodes:
  "DeregisterInstancesFromLoadBalancer c i R s = (Return (), s') \<Longrightarrow>
     \<exists>(ns :: ConcertoLoadBalancerNode list) new.
       length ns = length R \<and> snd s' = snd s @ new \<and>
       filter is_mutating new = map (\<lambda>n. DELETE (node_path i (node_ID n))) ns \<and>
       (\<forall>k<length R. \<exists>sk nodes sk'.
          DeregisterInstancesFromLoadBalancer c i (take k R) s = (Return (), sk) \<and>
          GetLoadBalancerNodes c i sk = (Return nodes, sk') \<and>
          find (\<lambda>x. node_IP x = R ! k) nodes = Some (ns ! k))"
proof (induction R arbitrary: s)
  case Nil
  then have "length ([] :: ConcertoLoadBalancerNode list) = length ([] :: string list) \<and>
       snd s' = snd s @ [] \<and>
       filter is_mutating ([] :: 'b call list) =
         map (\<lambda>n. DELETE (node_path i (node_ID n))) ([] :: ConcertoLoadBalancerNode list)"
    by simp
  then show ?case by fastforce
next
  case (Cons ip R)
  obtain r1 s1 where step: "deregisterInstanceFromLoadBalancer c i ip s = (r1, s1)"
    by (cases "deregisterInstanceFromLoadBalancer c i ip s")
  with Cons.prems have r1: "r1 = Return ()"
    and rest: "DeregisterInstancesFromLoadBalancer c i R s1 = (Return (), s')"
    by (cases r1; simp)+
  from deregister_found [OF step [unfolded r1]] obtain nodes s0 n where
    f: "GetLoadBalancerNodes c i s = (Return nodes, s0)"
       "find (\<lambda>x. node_IP x = ip) nodes = Some n"
       "snd s1 = snd s @ [GET (nodes_path i), DELETE (node_path i (node_ID n))]" by blast
  from Cons.IH [OF rest] obtain ns :: "ConcertoLoadBalancerNode list" and new where
    ih: "length ns = length R" "snd s' = snd s1 @ new"
        "filter is_mutating new = map (\<lambda>n. DELETE (node_path i (node_ID n))) ns"
        "\<forall>k<length R. \<exists>sk nodes sk'.
          DeregisterInstancesFromLoadBalancer c i (take k R) s1 = (Return (), sk) \<and>
          GetLoadBalancerNodes c i sk = (Return nodes, sk') \<and>
          find (\<lambda>x. node_IP x = R ! k) nodes = Some (ns ! k)" by blast
  let ?new = "[GET (nodes_path i), DELETE (node_path i (node_ID n))] @ new"
  have a: "length (n # ns) = length (ip # R)" using ih(1) by simp
  have b: "snd s' = snd s @ ?new" using ih(2) f(3) by simp
  have c: "filter is_mutating ?new = map (\<lambda>n. DELETE (node_path i (node_ID n))) (n # ns)"
    using ih(3) by simp
  have d: "\<exists>sk nodes sk'.
          DeregisterInstancesFromLoadBalancer c i (take k (ip # R)) s = (Return (), sk) \<and>
          GetLoadBalancerNodes c i sk = (Return nodes, sk') \<and>
          find (\<lambda>x. node_IP x = (ip # R) ! k) nodes = Some ((n # ns) ! k)"
    if "k < length (ip # R)" for k
  proof (cases k)
    case 0
    with f(1,2) show ?thesis by auto
  next
    case (Suc j)
    with that have "j < length R" by simp
    with ih(4) obtain sk nodes' sk' where
      "DeregisterInstancesFromLoadBalancer c i (take j R) s1 = (Return (), sk)"
      "GetLoadBalancerNodes c i sk = (Return nodes', sk')"
      "find (\<lambda>x. node_IP x = R ! j) nodes' = Some (ns ! j)" by blast
    with Suc step r1 show ?thesis by auto
  qed
  from a b c d show ?case by blast
qed

lemma remote_Register_nodes:
  assumes "no_slash i" "i \<in> set (map lb_Id (r_lbs w))"
    "set ips \<subseteq> set (map ship_Public_ip (r_ships w))"
  shows "\<exists>w' new. RegisterInstancesWithLoadBalancer remoteAPI i ips (w, cs) =
             (Return (), (w', cs @ concat (map (\<lambda>a. [GET ships_path,
                POST (nodes_path i) (WNode \<lparr>node_ID = [], node_IP = a\<rparr>)]) ips))) \<and>
           r_ships w' = r_ships w \<and> r_lbs w' = r_lbs w \<and>
           r_nodes w' i = r_nodes w i @ new \<and> map node_IP new = ips \<and>
           (\<forall>j. j \<noteq> i \<longrightarrow> r_nodes w' j = r_nodes w j)"
  using assms
proof (induction ips arbitrary: w cs)
  case Nil
  show ?case by (rule exI [of _ w], rule exI [of _ "[]"]) simp
next
  case (Cons ip ips)
  let ?w1 = "add_member w i ip"
  let ?cs1 = "cs @ [GET ships_path, POST (nodes_path i) (WNode \<lparr>node_ID = [], node_IP = ip\<rparr>)]"
  let ?calls = "\<lambda>ips. concat (map (\<lambda>a. [GET ships_path,
                POST (nodes_path i) (WNode \<lparr>node_ID = [], node_IP = a\<rparr>)]) ips)"
  let ?n = "\<lparr>node_ID = fresh_id (map node_ID (r_nodes w i)), node_IP = ip\<rparr>"
  have step: "registerInstanceWithLoadBalancer remoteAPI i ip (w, cs) = (Return (), (?w1, ?cs1))"
    using Cons.prems by (intro remote_register) auto
  have n1: "r_nodes ?w1 i = r_nodes w i @ [?n]" by (simp add: add_member_def)
  have "\<exists>w' new. RegisterInstancesWithLoadBalancer remoteAPI i ips (?w1, ?cs1) =
             (Return (), (w', ?cs1 @ ?calls ips)) \<and>
           r_ships w' = r_ships ?w1 \<and> r_lbs w' = r_lbs ?w1 \<and>
           r_nodes w' i = r_nodes ?w1 i @ new \<and> map node_IP new = ips \<and>
           (\<forall>j. j \<noteq> i \<longrightarrow> r_nodes w' j = r_nodes ?w1 j)"
    using Cons.prems by (intro Cons.IH) (auto simp: add_member_simps)
  then obtain w' new where
    ih: "RegisterInstancesWithLoadBalancer remoteAPI i ips (?w1, ?cs1) =
           (Return (), (w', ?cs1 @ ?calls ips))"
      "r_ships w' = r_ships ?w1" "r_lbs w' = r_lbs ?w1"
      "r_nodes w' i = r_nodes ?w1 i @ new" "map node_IP new = ips"
      "\<forall>j. j \<noteq> i \<longrightarrow> r_nodes w' j = r_nodes ?w1 j" by blast
  have key: "RegisterInstancesWithLoadBalancer remoteAPI i (ip # ips) (w, cs) =
             (Return (), (w', cs @ ?calls (ip # ips))) \<and>
           r_ships w' = r_ships w \<and> r_lbs w' = r_lbs w \<and>
           r_nodes w' i = r_nodes w i @ (?n # new) \<and> map node_IP (?n # new) = ip # ips \<and>
           (\<forall>j. j \<noteq> i \<longrightarrow> r_nodes w' j = r_nodes w j)"
  proof -
    have e1: "RegisterInstancesWithLoadBalancer remoteAPI i (ip # ips) (w, cs) =
             (Return (), (w', cs @ ?calls (ip # ips)))"
      using step ih(1) by simp
    have e2: "r_ships w' = r_ships w" "r_lbs w' = r_lbs w"
      using ih(2,3) by (simp_all add: add_member_simps)
    have e3: "r_nodes w' i = r_nodes w i @ (?n # new)"
      unfolding ih(4) n1 by simp
    have e4: "map node_IP (?n # new) = ip # ips" using ih(5) by simp
    have e5: "\<forall>j. j \<noteq> i \<longrightarrow> r_nodes w' j = r_nodes w j"
      using ih(6) by (simp add: add_member_simps)
    from e1 e2 e3 e4 e5 show ?thesis by blast
  qed
  show ?case by (rule exI [of _ w'], rule exI [of _ "?n # new"]) (rule key)
qed

lemma remote_Deregister_calls:
  assumes "no_slash i" "i \<in> set (map lb_Id (r_lbs w))"
    "distinct (map node_ID (r_nodes w i))"
    "ips = filter (\<lambda>a. a \<notin> S) (map node_IP (r_nodes w i))"
  shows "\<exists>w'. DeregisterInstancesFromLoadBalancer remoteAPI i ips (w, cs) =
             (Return (), (w', cs @ concat (map (\<lambda>n. [GET (nodes_path i),
                DELETE (node_path i (node_ID n))])
                (filter (\<lambda>n. node_IP n \<notin> S) (r_nodes w i))))) \<and>
           r_ships w' = r_ships w \<and> r_lbs w' = r_lbs w \<and>
           r_nodes w' i = filter (\<lambda>n. node_IP n \<in> S) (r_nodes w i) \<and>
           (\<forall>j. j \<noteq> i \<longrightarrow> r_nodes w' j = r_nodes w j)"
  using assms
proof (induction ips arbitrary: w cs)
  case Nil
  from Nil.prems(4) have "filter (\<lambda>a. a \<notin> S) (map node_IP (r_nodes w i)) = []" by simp
  then have all: "\<forall>n \<in> set (r_nodes w i). node_IP n \<in> S"
    by (auto simp: filter_empty_conv)
  then have "filter (\<lambda>n. node_IP n \<in> S) (r_nodes w i) = r_nodes w i"
    by (simp add: filter_id_conv)
  moreover from all have "filter (\<lambda>n. node_IP n \<notin> S) (r_nodes w i) = []"
    by (simp add: filter_empty_conv)
  ultimately show ?case by simp
next
  case (Cons ip ips)
  let ?calls = "\<lambda>ns :: ConcertoLoadBalancerNode list. concat (map (\<lambda>n. [GET (nodes_path i) :: wire call,
                DELETE (node_path i (node_ID n))]) ns)"
  from Cons.prems(4) [symmetric] have "map node_IP (filter (\<lambda>n. node_IP n \<notin> S) (r_nodes w i)) = ip # ips"
    by (simp add: filter_map comp_def)
  then obtain n rest where
    nr: "filter (\<lambda>n. node_IP n \<notin> S) (r_nodes w i) = n # rest" "node_IP n = ip" "map node_IP rest = ips"
    by auto
  from nr(1) obtain pre post where
    split: "r_nodes w i = pre @ n # post" "\<forall>x \<in> set pre. \<not> node_IP x \<notin> S" "node_IP n \<notin> S"
      "rest = filter (\<lambda>n. node_IP n \<notin> S) post"
    by (auto simp: filter_eq_Cons_iff)
  have "find (\<lambda>node. node_IP node = ip) (r_nodes w i) = Some n"
    unfolding split(1) using split(2,3) nr(2) by (intro find_after_prefix) auto
  from remote_deregister [OF Cons.prems(1,2) this]
  have step: "deregisterInstanceFromLoadBalancer remoteAPI i ip (w, cs) =
     (Return (), (remove_member w i (node_ID n),
        cs @ [GET (nodes_path i), DELETE (node_path i (node_ID n))]))" .
  let ?w1 = "remove_member w i (node_ID n)"
  let ?cs1 = "cs @ [GET (nodes_path i), DELETE (node_path i (node_ID n))]"
  have "filter (\<lambda>x. node_ID x \<noteq> node_ID n) (pre @ n # post) = pre @ post"
    using Cons.prems(3) unfolding split(1) by (rule filter_ID_distinct)
  then have n1: "r_nodes ?w1 i = pre @ post"
    by (simp add: remove_member_simps split(1))
  have ips: "ips = filter (\<lambda>a. a \<notin> S) (map node_IP (r_nodes ?w1 i))"
    using split(2,4) nr(3) by (simp add: n1 filter_map comp_def filter_empty_conv)
  have d1: "distinct (map node_ID (r_nodes ?w1 i))"
    using Cons.prems(3) by (simp add: n1 split(1))
  have "\<exists>w'. DeregisterInstancesFromLoadBalancer remoteAPI i ips (?w1, ?cs1) =
             (Return (), (w', ?cs1 @ ?calls (filter (\<lambda>n. node_IP n \<notin> S) (r_nodes ?w1 i)))) \<and>
           r_ships w' = r_ships ?w1 \<and> r_lbs w' = r_lbs ?w1 \<and>
           r_nodes w' i = filter (\<lambda>n. node_IP n \<in> S) (r_nodes ?w1 i) \<and>
           (\<forall>j. j \<noteq> i \<longrightarrow> r_nodes w' j = r_nodes ?w1 j)"
    using Cons.prems(1,2) d1 ips by (intro Cons.IH) (simp_all add: remove_member_simps)
  then obtain w' where
    ih: "DeregisterInstancesFromLoadBalancer remoteAPI i ips (?w1, ?cs1) =
           (Return (), (w', ?cs1 @ ?calls (filter (\<lambda>n. node_IP n \<notin> S) (r_nodes ?w1 i))))"
      "r_ships w' = r_ships ?w1" "r_lbs w' = r_lbs ?w1"
      "r_nodes w' i = filter (\<lambda>n. node_IP n \<in> S) (r_nodes ?w1 i)"
      "\<forall>j. j \<noteq> i \<longrightarrow> r_nodes w' j = r_nodes ?w1 j" by blast
  have out: "filter (\<lambda>n. node_IP n \<notin> S) (r_nodes ?w1 i) = rest"
    unfolding n1 using split(2,4) by (simp add: filter_empty_conv)
  have e1: "r_nodes w' i = filter (\<lambda>n. node_IP n \<in> S) (pre @ post)"
    using ih(4) unfolding n1 .
  have e2: "r_nodes w' i = filter (\<lambda>n. node_IP n \<in> S) (r_nodes w i)"
    using e1 split(3) by (simp add: split(1))
  have e3: "\<forall>j. j \<noteq> i \<longrightarrow> r_nodes w' j = r_nodes w j"
    using ih(5) by (simp add: remove_member_simps)
  have e4: "DeregisterInstancesFromLoadBalancer remoteAPI i (ip # ips) (w, cs) =
      (Return (), (w', cs @ ?calls (filter (\<lambda>n. node_IP n \<notin> S) (r_nodes w i))))"
    using step ih(1) unfolding out nr(1) by simp
  have e5: "r_ships w' = r_ships w" "r_lbs w' = r_lbs w"
    using ih(2,3) by (simp_all add: remove_member_simps)
  from e2 e3 e4 e5 show ?case by blast
qed

lemma remote_update_exact:
  assumes wf: "remote_wf w"
    and lb: "find (\<lambda>lb. lb_Name lb = name) (r_lbs w) = Some lb"
    and res: "namesToIPs (map toInstance (r_ships w)) [] hosts = Return D"
  shows "\<exists>w1 new.
           UpdateTCPLoadBalancer remoteAPI name region hosts (w, cs) =
             (Return (),
              (w1, cs @ [GET load_balancers_path, GET (nodes_path (lb_Id lb)), GET ships_path] @
                 concat (map (\<lambda>n. [GET (nodes_path (lb_Id lb)),
                    DELETE (node_path (lb_Id lb) (node_ID n))])
                    (filter (\<lambda>n. node_IP n \<notin> set D) (r_nodes w (lb_Id lb)))) @
                 concat (map (\<lambda>a. [GET ships_path,
                    POST (nodes_path (lb_Id lb)) (WNode \<lparr>node_ID = [], node_IP = a\<rparr>)])
                    (filter (\<lambda>a. a \<notin> set (members w (lb_Id lb))) D)))) \<and>
           r_nodes w1 (lb_Id lb) =
             filter (\<lambda>n. node_IP n \<in> set D) (r_nodes w (lb_Id lb)) @ new \<and>
           map node_IP new = filter (\<lambda>a. a \<notin> set (members w (lb_Id lb))) D"
proof -
  let ?i = "lb_Id lb"
  let ?M = "members w ?i"
  from find_in_lbs [OF lb] have mem: "lb \<in> set (r_lbs w)" by simp
  note f = remote_wf_lb [OF wf mem]
  define cs3 where "cs3 = cs @ [GET load_balancers_path, GET (nodes_path ?i), GET ships_path]"
  have 1: "GetLoadBalancerByName remoteAPI name (w, cs) =
             (Return (Some lb), (w, cs @ [GET load_balancers_path]))"
    by (simp add: remote_GetLoadBalancerByName lb)
  have 2: "GetLoadBalancerNodesAsIPs remoteAPI ?i (w, cs @ [GET load_balancers_path]) =
             (Return ?M, (w, cs @ [GET load_balancers_path, GET (nodes_path ?i)]))"
    using remote_GetLoadBalancerNodesAsIPs [OF f(1,2), of "cs @ [GET load_balancers_path]"] by simp
  have 3: "hostsNamesToIPs remoteAPI hosts (w, cs @ [GET load_balancers_path, GET (nodes_path ?i)]) =
             (Return D, (w, cs3))"
    by (simp add: remote_hostsNamesToIPs res cs3_def)
  have upd: "UpdateTCPLoadBalancer remoteAPI name region hosts (w, cs) =
      apply_ops remoteAPI ?i
        (map Deregister (subtractStringArrays ?M D) @ map Register (subtractStringArrays D ?M)) (w, cs3)"
    by (rule update_refines [OF 1 2 3])
  have sub: "subtractStringArrays ?M D = filter (\<lambda>a. a \<notin> set D) (map node_IP (r_nodes w ?i))"
    by (simp add: subtractStringArrays_def members_def)
  let ?dcalls = "concat (map (\<lambda>n. [GET (nodes_path ?i) :: wire call, DELETE (node_path ?i (node_ID n))])
                    (filter (\<lambda>n. node_IP n \<notin> set D) (r_nodes w ?i)))"
  from remote_Deregister_calls [OF f(1,2,3) sub, of cs3] obtain w' where
    d: "DeregisterInstancesFromLoadBalancer remoteAPI ?i (subtractStringArrays ?M D) (w, cs3) =
          (Return (), (w', cs3 @ ?dcalls))"
      "r_ships w' = r_ships w" "r_lbs w' = r_lbs w"
      "r_nodes w' ?i = filter (\<lambda>n. node_IP n \<in> set D) (r_nodes w ?i)" by blast
  have a1: "?i \<in> set (map lb_Id (r_lbs w'))" using f(2) d(3) by simp
  have a2: "set (subtractStringArrays D ?M) \<subseteq> set (map ship_Public_ip (r_ships w'))"
    using resolved_are_ships [OF res] d(2) by (auto simp: subtractStringArrays_def)
  let ?rcalls = "concat (map (\<lambda>a. [GET ships_path :: wire call,
                POST (nodes_path ?i) (WNode \<lparr>node_ID = [], node_IP = a\<rparr>)]) (subtractStringArrays D ?M))"
  from remote_Register_nodes [OF f(1) a1 a2, of "cs3 @ ?dcalls"] obtain w'' new where
    r: "RegisterInstancesWithLoadBalancer remoteAPI ?i (subtractStringArrays D ?M) (w', cs3 @ ?dcalls) =
          (Return (), (w'', (cs3 @ ?dcalls) @ ?rcalls))"
      "r_nodes w'' ?i = r_nodes w' ?i @ new" "map node_IP new = subtractStringArrays D ?M" by blast
  have run: "UpdateTCPLoadBalancer remoteAPI name region hosts (w, cs) =
      (Return (), (w'', (cs3 @ ?dcalls) @ ?rcalls))"
    by (simp add: upd apply_ops_append apply_ops_Deregister apply_ops_Register d(1) r(1))
  have n: "r_nodes w'' ?i = filter (\<lambda>n. node_IP n \<in> set D) (r_nodes w ?i) @ new"
    using r(2) d(4) by simp
  have m: "map node_IP new = filter (\<lambda>a. a \<notin> set ?M) D"
    using r(3) by (simp add: subtractStringArrays_def)
  have run': "UpdateTCPLoadBalancer remoteAPI name region hosts (w, cs) =
             (Return (),
              (w'', cs @ [GET load_balancers_path, GET (nodes_path ?i), GET ships_path] @
                 concat (map (\<lambda>n. [GET (nodes_path ?i), DELETE (node_path ?i (node_ID n))])
                    (filter (\<lambda>n. node_IP n \<notin> set D) (r_nodes w ?i))) @
                 concat (map (\<lambda>a. [GET ships_path,
                    POST (nodes_path ?i) (WNode \<lparr>node_ID = [], node_IP = a\<rparr>)])
                    (filter (\<lambda>a. a \<notin> set ?M) D))))"
    unfolding run by (simp add: cs3_def subtractStringArrays_def)
  from run' n m have key: "UpdateTCPLoadBalancer remoteAPI name region hosts (w, cs) =
             (Return (),
              (w'', cs @ [GET load_balancers_path, GET (nodes_path ?i), GET ships_path] @
                 concat (map (\<lambda>n. [GET (nodes_path ?i), DELETE (node_path ?i (node_ID n))])
                    (filter (\<lambda>n. node_IP n \<notin> set D) (r_nodes w ?i))) @
                 concat (map (\<lambda>a. [GET ships_path,
                    POST (nodes_path ?i) (WNode \<lparr>node_ID = [], node_IP = a\<rparr>)])
                    (filter (\<lambda>a. a \<notin> set ?M) D)))) \<and>
           r_nodes w'' ?i = filter (\<lambda>n. node_IP n \<in> set D) (r_nodes w ?i) @ new \<and>
           map node_IP new = filter (\<lambda>a. a \<notin> set ?M) D"
    by (intro conjI)
  show ?thesis by (rule exI [of _ w''], rule exI [of _ new]) (rule key)
qed

lemma remote_CreateLoadBalancer:
  "CreateLoadBalancer remoteAPI name port nodePort (w, cs) =
     (let lb = \<lparr>lb_Id = [], lb_Name = name, lb_FQDN = name, lb_Port = port,
                lb_NodePort = nodePort, lb_Protocol = ''tcp''\<rparr>;
          lb' = lb\<lparr>lb_Id := fresh_id (map lb_Id (r_lbs w))\<rparr>
      in (Return lb',
          (w\<lparr>r_lbs := r_lbs w @ [lb'], r_nodes := (r_nodes w)(lb_Id lb' := [])\<rparr>,
           cs @ [POST load_balancers_path (WLoadBalancer lb)])))"
  by (simp add: CreateLoadBalancer_def client_Post_def remoteAPI_def remote_Post_def
        route_load_balancers Let_def)

lemma find_append_last:
  "find P xs = None \<Longrightarrow> P x \<Longrightarrow> find P (xs @ [x]) = Some x"
  by (induction xs) (auto split: if_splits)

lemma remote_DeleteLoadBalancerById:
  "no_slash i \<Longrightarrow> i \<in> set (map lb_Id (r_lbs w)) \<Longrightarrow>
   DeleteLoadBalancerById remoteAPI i (w, cs) =
     (Return (), (w\<lparr>r_lbs := filter (\<lambda>lb. lb_Id lb \<noteq> i) (r_lbs w)\<rparr>,
        cs @ [DELETE (load_balancer_path i)]))"
  by (simp add: DeleteLoadBalancerById_def client_Delete_def remoteAPI_def remote_Delete_def
        route_load_balancer)

lemma find_after_delete:
  assumes "distinct (map lb_Name lbs)" "find (\<lambda>lb. lb_Name lb = name) lbs = Some lb"
  shows "find (\<lambda>lb. lb_Name lb = name) (filter (\<lambda>x. lb_Id x \<noteq> lb_Id lb) lbs) = None"
proof -
  from find_in_lbs [OF assms(2)] have lb: "lb \<in> set lbs" "lb_Name lb = name" by simp_all
  have "x = lb" if "x \<in> set lbs" "lb_Name x = name" for x
    using assms(1) lb that by (auto simp: distinct_map inj_on_def)
  then show ?thesis by (auto simp: find_None_iff)
qed

lemma DeleteLoadBalancerById_calls:
  "DeleteLoadBalancerById c i s = (r, s') \<Longrightarrow> snd s' = snd s @ [DELETE (load_balancer_path i)]"
  by (auto simp: DeleteLoadBalancerById_def client_Delete_def split: prod.splits option.splits if_splits)

lemma example_remote_wf: "remote_wf example_remote"
  by (simp add: remote_wf_def example_remote_def no_slash_def)

lemmas run_defs = UpdateTCPLoadBalancer_def GetLoadBalancerByName_def GetLoadBalancerList_def
  GetLoadBalancerNodesAsIPs_def GetLoadBalancerNodes_def hostsNamesToIPs_def GetInstanceList_def
  GetInstanceByIP_def GetNodeByIP_def registerInstanceWithLoadBalancer_def
  deregisterInstanceFromLoadBalancer_def andThen_def ret_def client_Get_def client_Post_def
  client_Delete_def remoteAPI_def remote_Get_def remote_Post_def remote_Delete_def route_of_def
  ships_path_def load_balancers_path_def load_balancer_path_def nodes_path_def node_path_def
  subtractStringArrays_def toInstance_def toNode_def fresh_id_def example_remote_def Let_def
  EnsureTCPLoadBalancerDeleted_def DeleteLoadBalancerById_def

section \<open>The claims\<close>

text \<open>
  C1. The claim: for a name absent from the listing, \<open>UpdateTCPLoadBalancer\<close>
  fails with a not-found error. The code dereferences the nil pointer that the
  lookup returns: it panics after the one listing call.
\<close>

theorem update_absent_panics:
  "GetLoadBalancerByName c name s = (Return None, s1) \<Longrightarrow>
   UpdateTCPLoadBalancer c name region hosts s = (Panic NilPointerDereference, s1)"
  by (simp add: UpdateTCPLoadBalancer_def andThen_def)

theorem update_absent_panics_witness:
  "GetLoadBalancerByName remoteAPI ''absent'' (example_remote, []) =
     (Return None, (example_remote, [GET load_balancers_path])) \<and>
   UpdateTCPLoadBalancer remoteAPI ''absent'' ''r'' [''host-a''] (example_remote, []) =
     (Panic NilPointerDereference, (example_remote, [GET load_balancers_path]))"
proof -
  have h: "GetLoadBalancerByName remoteAPI ''absent'' (example_remote, []) =
     (Return None, (example_remote, [GET load_balancers_path]))"
    by (simp add: remote_GetLoadBalancerByName example_remote_def)
  from h update_absent_panics [OF h] show ?thesis by simp
qed

text \<open>
  C2. A successful \<open>UpdateTCPLoadBalancer\<close> is the run of one deregister
  operation for each address of the actual membership \<open>M\<close> that is not in the
  desired addresses \<open>D\<close>, followed by one register operation for each address
  of \<open>D\<close> that is not in \<open>M\<close>. Its deleting calls are, in order, one for each
  address to remove, and the node each of them deletes is the first node with
  that address in the listing of the nodes at that moment; its posting calls
  carry the addresses to add. No operation is for an address of both \<open>M\<close> and
  \<open>D\<close>. On the reference remote the update deletes exactly the nodes whose
  address is not desired, keeps every other node as it is and appends one node
  for each address to add.
\<close>

theorem update_set_difference:
  "(UpdateTCPLoadBalancer c name region hosts s = (Return (), s') \<longrightarrow>
      (\<exists>lb M D s1 s2 s3 (removed :: ConcertoLoadBalancerNode list) added.
         GetLoadBalancerByName c name s = (Return (Some lb), s1) \<and>
         GetLoadBalancerNodesAsIPs c (lb_Id lb) s1 = (Return M, s2) \<and>
         hostsNamesToIPs c hosts s2 = (Return D, s3) \<and>
         map node_IP removed = filter (\<lambda>a. a \<notin> set D) M \<and>
         added = filter (\<lambda>a. a \<notin> set M) D \<and>
         apply_ops c (lb_Id lb) (map Deregister (map node_IP removed) @ map Register added) s3 =
           (Return (), s') \<and>
         filter is_mutating (drop (length (snd s)) (snd s')) =
           map (\<lambda>n. DELETE (node_path (lb_Id lb) (node_ID n))) removed @
           map (\<lambda>a. POST (nodes_path (lb_Id lb)) (marshal_node c \<lparr>node_ID = [], node_IP = a\<rparr>)) added \<and>
         (\<forall>k<length removed. \<exists>sk nodes sk'.
            apply_ops c (lb_Id lb) (map Deregister (take k (map node_IP removed))) s3 =
              (Return (), sk) \<and>
            GetLoadBalancerNodes c (lb_Id lb) sk = (Return nodes, sk') \<and>
            find (\<lambda>n. node_IP n = node_IP (removed ! k)) nodes = Some (removed ! k)) \<and>
         set (map node_IP removed) = set M - set D \<and>
         set added = set D - set M \<and>
         set (map node_IP removed) \<inter> (set M \<inter> set D) = {} \<and>
         set added \<inter> (set M \<inter> set D) = {})) \<and>
   (remote_wf w \<and>
    fst (GetLoadBalancerByName remoteAPI name (w, [])) = Return (Some lb') \<and>
    fst (hostsNamesToIPs remoteAPI hosts (w, [])) = Return D' \<longrightarrow>
      (\<exists>w1 new.
         UpdateTCPLoadBalancer remoteAPI name region hosts (w, []) =
           (Return (),
            (w1, [GET load_balancers_path, GET (nodes_path (lb_Id lb')), GET ships_path] @
               concat (map (\<lambda>n. [GET (nodes_path (lb_Id lb')),
                  DELETE (node_path (lb_Id lb') (node_ID n))])
                  (filter (\<lambda>n. node_IP n \<notin> set D') (r_nodes w (lb_Id lb')))) @
               concat (map (\<lambda>a. [GET ships_path,
                  POST (nodes_path (lb_Id lb')) (WNode \<lparr>node_ID = [], node_IP = a\<rparr>)])
                  (filter (\<lambda>a. a \<notin> set (members w (lb_Id lb'))) D')))) \<and>
         r_nodes w1 (lb_Id lb') =
           filter (\<lambda>n. node_IP n \<in> set D') (r_nodes w (lb_Id lb')) @ new \<and>
         map node_IP new = filter (\<lambda>a. a \<notin> set (members w (lb_Id lb'))) D'))"
proof (intro conjI impI)
  assume run0: "UpdateTCPLoadBalancer c name region hosts s = (Return (), s')"
  from update_lookups [OF run0] obtain lb M D s1 s2 s3 where
    l: "GetLoadBalancerByName c name s = (Return (Some lb), s1)"
       "GetLoadBalancerNodesAsIPs c (lb_Id lb) s1 = (Return M, s2)"
       "hostsNamesToIPs c hosts s2 = (Return D, s3)" by blast
  let ?i = "lb_Id lb"
  let ?R = "subtractStringArrays M D"
  let ?A = "subtractStringArrays D M"
  let ?DEL = "\<lambda>n :: ConcertoLoadBalancerNode. DELETE (node_path ?i (node_ID n))"
  let ?POST = "\<lambda>a. POST (nodes_path ?i) (marshal_node c \<lparr>node_ID = [], node_IP = a\<rparr>)"
  from update_refines [OF l] run0
  have run: "apply_ops c ?i (map Deregister ?R @ map Register ?A) s3 = (Return (), s')"
    by simp
  obtain rd sm where dm: "DeregisterInstancesFromLoadBalancer c ?i ?R s3 = (rd, sm)"
    by (cases "DeregisterInstancesFromLoadBalancer c ?i ?R s3")
  with run have rd: "rd = Return ()"
    and rg: "RegisterInstancesWithLoadBalancer c ?i ?A sm = (Return (), s')"
    by (cases rd; simp add: apply_ops_append apply_ops_Deregister apply_ops_Register)+
  note d = dm [unfolded rd]
  from Deregister_nodes [OF d] obtain ns :: "ConcertoLoadBalancerNode list" and new1 where
    n1: "length ns = length ?R" "snd sm = snd s3 @ new1"
        "filter is_mutating new1 = map ?DEL ns"
        "\<forall>k<length ?R. \<exists>sk nodes sk'.
          DeregisterInstancesFromLoadBalancer c ?i (take k ?R) s3 = (Return (), sk) \<and>
          GetLoadBalancerNodes c ?i sk = (Return nodes, sk') \<and>
          find (\<lambda>x. node_IP x = ?R ! k) nodes = Some (ns ! k)" by blast
  from Register_calls [OF rg] obtain new2 k where
    n2: "snd s' = snd sm @ new2" "filter is_mutating new2 = map ?POST (take k ?A)"
        "k = length ?A" by blast
  have nth: "node_IP (ns ! k) = ?R ! k" if "k < length ?R" for k
  proof -
    from n1(4) that obtain nodes where "find (\<lambda>x. node_IP x = ?R ! k) nodes = Some (ns ! k)"
      by blast
    then show ?thesis by (auto simp: find_Some_iff)
  qed
  have ips: "map node_IP ns = ?R"
    using n1(1) nth by (intro nth_equalityI) simp_all
  have c0: "map node_IP ns = filter (\<lambda>a. a \<notin> set D) M" "?A = filter (\<lambda>a. a \<notin> set M) D"
    using ips by (simp_all add: subtractStringArrays_def)
  have c1: "apply_ops c ?i (map Deregister (map node_IP ns) @ map Register ?A) s3 = (Return (), s')"
    using run ips by simp
  have "drop (length (snd s)) (snd s') =
      [GET load_balancers_path, GET (nodes_path ?i), GET ships_path] @ new1 @ new2"
    using lookups_calls [OF l] n1(2) n2(1) by simp
  then have c2: "filter is_mutating (drop (length (snd s)) (snd s')) = map ?DEL ns @ map ?POST ?A"
    using n1(3) n2(2,3) by simp
  have c3: "\<forall>k<length ns. \<exists>sk nodes sk'.
            apply_ops c ?i (map Deregister (take k (map node_IP ns))) s3 = (Return (), sk) \<and>
            GetLoadBalancerNodes c ?i sk = (Return nodes, sk') \<and>
            find (\<lambda>n. node_IP n = node_IP (ns ! k)) nodes = Some (ns ! k)"
  proof (intro allI impI)
    fix k assume k: "k < length ns"
    then have k': "k < length ?R" using n1(1) by simp
    from n1(4) k' obtain sk nodes sk' where
      "DeregisterInstancesFromLoadBalancer c ?i (take k ?R) s3 = (Return (), sk)"
      "GetLoadBalancerNodes c ?i sk = (Return nodes, sk')"
      "find (\<lambda>x. node_IP x = ?R ! k) nodes = Some (ns ! k)" by blast
    then have "apply_ops c ?i (map Deregister (take k (map node_IP ns))) s3 = (Return (), sk) \<and>
            GetLoadBalancerNodes c ?i sk = (Return nodes, sk') \<and>
            find (\<lambda>n. node_IP n = node_IP (ns ! k)) nodes = Some (ns ! k)"
      using nth [OF k'] by (simp add: apply_ops_Deregister ips)
    then show "\<exists>sk nodes sk'.
            apply_ops c ?i (map Deregister (take k (map node_IP ns))) s3 = (Return (), sk) \<and>
            GetLoadBalancerNodes c ?i sk = (Return nodes, sk') \<and>
            find (\<lambda>n. node_IP n = node_IP (ns ! k)) nodes = Some (ns ! k)"
      by (intro exI)
  qed
  have c4: "set (map node_IP ns) = set M - set D" "set ?A = set D - set M"
    unfolding ips by (auto simp: subtractStringArrays_def)
  have c5: "set (map node_IP ns) \<inter> (set M \<inter> set D) = {}" "set ?A \<inter> (set M \<inter> set D) = {}"
    unfolding c4 by auto
  have key: "GetLoadBalancerByName c name s = (Return (Some lb), s1) \<and>
         GetLoadBalancerNodesAsIPs c (lb_Id lb) s1 = (Return M, s2) \<and>
         hostsNamesToIPs c hosts s2 = (Return D, s3) \<and>
         map node_IP ns = filter (\<lambda>a. a \<notin> set D) M \<and>
         ?A = filter (\<lambda>a. a \<notin> set M) D \<and>
         apply_ops c (lb_Id lb) (map Deregister (map node_IP ns) @ map Register ?A) s3 =
           (Return (), s') \<and>
         filter is_mutating (drop (length (snd s)) (snd s')) = map ?DEL ns @ map ?POST ?A \<and>
         (\<forall>k<length ns. \<exists>sk nodes sk'.
            apply_ops c (lb_Id lb) (map Deregister (take k (map node_IP ns))) s3 =
              (Return (), sk) \<and>
            GetLoadBalancerNodes c (lb_Id lb) sk = (Return nodes, sk') \<and>
            find (\<lambda>n. node_IP n = node_IP (ns ! k)) nodes = Some (ns ! k)) \<and>
         set (map node_IP ns) = set M - set D \<and>
         set ?A = set D - set M \<and>
         set (map node_IP ns) \<inter> (set M \<inter> set D) = {} \<and>
         set ?A \<inter> (set M \<inter> set D) = {}"
    using l c0 c1 c2 c3 c4 c5 by (intro conjI)
  show "\<exists>lb M D s1 s2 s3 (removed :: ConcertoLoadBalancerNode list) added.
         GetLoadBalancerByName c name s = (Return (Some lb), s1) \<and>
         GetLoadBalancerNodesAsIPs c (lb_Id lb) s1 = (Return M, s2) \<and>
         hostsNamesToIPs c hosts s2 = (Return D, s3) \<and>
         map node_IP removed = filter (\<lambda>a. a \<notin> set D) M \<and>
         added = filter (\<lambda>a. a \<notin> set M) D \<and>
         apply_ops c (lb_Id lb) (map Deregister (map node_IP removed) @ map Register added) s3 =
           (Return (), s') \<and>
         filter is_mutating (drop (length (snd s)) (snd s')) =
           map (\<lambda>n. DELETE (node_path (lb_Id lb) (node_ID n))) removed @
           map (\<lambda>a. POST (nodes_path (lb_Id lb)) (marshal_node c \<lparr>node_ID = [], node_IP = a\<rparr>)) added \<and>
         (\<forall>k<length removed. \<exists>sk nodes sk'.
            apply_ops c (lb_Id lb) (map Deregister (take k (map node_IP removed))) s3 =
              (Return (), sk) \<and>
            GetLoadBalancerNodes c (lb_Id lb) sk = (Return nodes, sk') \<and>
            find (\<lambda>n. node_IP n = node_IP (removed ! k)) nodes = Some (removed ! k)) \<and>
         set (map node_IP removed) = set M - set D \<and>
         set added = set D - set M \<and>
         set (map node_IP removed) \<inter> (set M \<inter> set D) = {} \<and>
         set added \<inter> (set M \<inter> set D) = {}"
    by (rule exI [of _ lb], rule exI [of _ M], rule exI [of _ D], rule exI [of _ s1],
        rule exI [of _ s2], rule exI [of _ s3], rule exI [of _ ns], rule exI [of _ ?A])
       (rule key)
next
  assume h: "remote_wf w \<and>
    fst (GetLoadBalancerByName remoteAPI name (w, [])) = Return (Some lb') \<and>
    fst (hostsNamesToIPs remoteAPI hosts (w, [])) = Return D'"
  then have wf: "remote_wf w"
    and lb: "find (\<lambda>lb. lb_Name lb = name) (r_lbs w) = Some lb'"
    and res: "namesToIPs (map toInstance (r_ships w)) [] hosts = Return D'"
    by (simp_all add: remote_GetLoadBalancerByName remote_hostsNamesToIPs)
  show "\<exists>w1 new.
         UpdateTCPLoadBalancer remoteAPI name region hosts (w, []) =
           (Return (),
            (w1, [GET load_balancers_path, GET (nodes_path (lb_Id lb')), GET ships_path] @
               concat (map (\<lambda>n. [GET (nodes_path (lb_Id lb')),
                  DELETE (node_path (lb_Id lb') (node_ID n))])
                  (filter (\<lambda>n. node_IP n \<notin> set D') (r_nodes w (lb_Id lb')))) @
               concat (map (\<lambda>a. [GET ships_path,
                  POST (nodes_path (lb_Id lb')) (WNode \<lparr>node_ID = [], node_IP = a\<rparr>)])
                  (filter (\<lambda>a. a \<notin> set (members w (lb_Id lb'))) D')))) \<and>
         r_nodes w1 (lb_Id lb') =
           filter (\<lambda>n. node_IP n \<in> set D') (r_nodes w (lb_Id lb')) @ new \<and>
         map node_IP new = filter (\<lambda>a. a \<notin> set (members w (lb_Id lb'))) D'"
    by (rule remote_update_exact [OF wf lb res, where cs = "[]", unfolded append_Nil])
qed

theorem update_set_difference_witness:
  "fst (UpdateTCPLoadBalancer remoteAPI ''web'' ''r'' [''host-a'', ''host-b''] (reordered_remote, [])) =
     Return () \<and>
   filter is_mutating
     (snd (snd (UpdateTCPLoadBalancer remoteAPI ''web'' ''r'' [''host-a'', ''host-b'']
        (reordered_remote, [])))) =
     [DELETE (node_path ''lb1'' ''n1''),
      POST (nodes_path ''lb1'') (WNode \<lparr>node_ID = [], node_IP = ''9.9.9.9''\<rparr>)] \<and>
   r_nodes (fst (snd (UpdateTCPLoadBalancer remoteAPI ''web'' ''r'' [''host-a'', ''host-b'']
        (reordered_remote, [])))) ''lb1'' =
     [\<lparr>node_ID = ''n2'', node_IP = ''5.6.7.8''\<rparr>, \<lparr>node_ID = ''nnn'', node_IP = ''9.9.9.9''\<rparr>] \<and>
   remote_wf reordered_remote \<and>
   fst (GetLoadBalancerByName remoteAPI ''web'' (reordered_remote, [])) =
     Return (Some (hd (r_lbs reordered_remote))) \<and>
   fst (hostsNamesToIPs remoteAPI [''host-a'', ''host-b''] (reordered_remote, [])) =
     Return [''5.6.7.8'', ''9.9.9.9'']"
proof -
  let ?out = "UpdateTCPLoadBalancer remoteAPI ''web'' ''r'' [''host-a'', ''host-b''] (reordered_remote, [])"
  have r: "fst ?out = Return ()" by (simp add: run_defs reordered_remote_def)
  have run: "?out = (Return (), snd ?out)" using r by (cases ?out) simp
  have e: "filter is_mutating (snd (snd ?out)) =
     [DELETE (node_path ''lb1'' ''n1''),
      POST (nodes_path ''lb1'') (WNode \<lparr>node_ID = [], node_IP = ''9.9.9.9''\<rparr>)]"
    by (simp add: run_defs reordered_remote_def)
  have n: "r_nodes (fst (snd ?out)) ''lb1'' =
     [\<lparr>node_ID = ''n2'', node_IP = ''5.6.7.8''\<rparr>, \<lparr>node_ID = ''nnn'', node_IP = ''9.9.9.9''\<rparr>]"
    by (simp add: run_defs reordered_remote_def)
  have wf: "remote_wf reordered_remote"
    by (simp add: remote_wf_def reordered_remote_def example_remote_def no_slash_def)
  have a: "fst (GetLoadBalancerByName remoteAPI ''web'' (reordered_remote, [])) =
     Return (Some (hd (r_lbs reordered_remote)))"
    by (simp add: remote_GetLoadBalancerByName reordered_remote_def example_remote_def)
  have b: "fst (hostsNamesToIPs remoteAPI [''host-a'', ''host-b''] (reordered_remote, [])) =
     Return [''5.6.7.8'', ''9.9.9.9'']"
    by (simp add: remote_hostsNamesToIPs reordered_remote_def example_remote_def toInstance_def)
  note t1 = update_set_difference [THEN conjunct1, rule_format, OF run]
  note t2 = update_set_difference [THEN conjunct2, rule_format, OF conjI [OF wf conjI [OF a b]],
      of "''r''"]
  from r e n wf a b t1 t2 show ?thesis by (intro conjI)
qed

text \<open>
  C3. For any transport, an update whose listing shows a membership equal, as a
  set, to the resolved addresses succeeds with the three listing calls and
  nothing else. On the reference remote: for an existing load balancer and
  hosts that all resolve to the addresses \<open>D\<close>, one \<open>UpdateTCPLoadBalancer\<close>
  succeeds and leaves the membership equal to \<open>D\<close> as a set; a second one with
  the same hosts succeeds, leaves the remote as it is and makes the three
  listing calls only.
\<close>

theorem update_idempotent:
  "(GetLoadBalancerByName c name s = (Return (Some lb), s1) \<and>
    GetLoadBalancerNodesAsIPs c (lb_Id lb) s1 = (Return M, s2) \<and>
    hostsNamesToIPs c hosts s2 = (Return D, s3) \<and> set M = set D \<longrightarrow>
      UpdateTCPLoadBalancer c name region hosts s = (Return (), s3) \<and>
      snd s3 = snd s @ [GET load_balancers_path, GET (nodes_path (lb_Id lb)), GET ships_path]) \<and>
   (remote_wf w \<and>
    fst (GetLoadBalancerByName remoteAPI name (w, [])) = Return (Some lb') \<and>
    fst (hostsNamesToIPs remoteAPI hosts (w, [])) = Return D' \<longrightarrow>
      (\<exists>w1 cs1.
         UpdateTCPLoadBalancer remoteAPI name region hosts (w, []) = (Return (), (w1, cs1)) \<and>
         set (members w1 (lb_Id lb')) = set D' \<and>
         UpdateTCPLoadBalancer remoteAPI name region hosts (w1, []) =
           (Return (), (w1, [GET load_balancers_path, GET (nodes_path (lb_Id lb')), GET ships_path]))))"
proof (intro conjI impI)
  assume h: "GetLoadBalancerByName c name s = (Return (Some lb), s1) \<and>
    GetLoadBalancerNodesAsIPs c (lb_Id lb) s1 = (Return M, s2) \<and>
    hostsNamesToIPs c hosts s2 = (Return D, s3) \<and> set M = set D"
  then have l: "GetLoadBalancerByName c name s = (Return (Some lb), s1)"
    "GetLoadBalancerNodesAsIPs c (lb_Id lb) s1 = (Return M, s2)"
    "hostsNamesToIPs c hosts s2 = (Return D, s3)" and same: "set M = set D" by simp_all
  have e: "subtractStringArrays M D = []" "subtractStringArrays D M = []"
    using same by (auto simp: subtractStringArrays_def filter_empty_conv)
  show "UpdateTCPLoadBalancer c name region hosts s = (Return (), s3)"
    by (simp add: update_refines [OF l] e)
  show "snd s3 = snd s @ [GET load_balancers_path, GET (nodes_path (lb_Id lb)), GET ships_path]"
    by (rule lookups_calls [OF l])
next
  assume h: "remote_wf w \<and>
    fst (GetLoadBalancerByName remoteAPI name (w, [])) = Return (Some lb') \<and>
    fst (hostsNamesToIPs remoteAPI hosts (w, [])) = Return D'"
  then have wf: "remote_wf w"
    and lb: "find (\<lambda>lb. lb_Name lb = name) (r_lbs w) = Some lb'"
    and res: "namesToIPs (map toInstance (r_ships w)) [] hosts = Return D'"
    by (simp_all add: remote_GetLoadBalancerByName remote_hostsNamesToIPs)
  from remote_update [OF wf lb res, of region "[]"] obtain w1 cs1 where
    u: "UpdateTCPLoadBalancer remoteAPI name region hosts (w, []) = (Return (), (w1, cs1))"
       "r_ships w1 = r_ships w" "r_lbs w1 = r_lbs w" "remote_wf w1"
       "members w1 (lb_Id lb') =
          filter (\<lambda>a. a \<in> set D') (members w (lb_Id lb')) @
          filter (\<lambda>a. a \<notin> set (members w (lb_Id lb'))) D'" by blast
  have m: "set (members w1 (lb_Id lb')) = set D'" unfolding u(5) by auto
  have lb1: "find (\<lambda>lb. lb_Name lb = name) (r_lbs w1) = Some lb'" using lb u(3) by simp
  have res1: "namesToIPs (map toInstance (r_ships w1)) [] hosts = Return D'" using res u(2) by simp
  from remote_update_noop [OF u(4) lb1 res1 m, of region "[]"]
  have "UpdateTCPLoadBalancer remoteAPI name region hosts (w1, []) =
          (Return (), (w1, [GET load_balancers_path, GET (nodes_path (lb_Id lb')), GET ships_path]))"
    by simp
  with u(1) m show "\<exists>w1 cs1.
         UpdateTCPLoadBalancer remoteAPI name region hosts (w, []) = (Return (), (w1, cs1)) \<and>
         set (members w1 (lb_Id lb')) = set D' \<and>
         UpdateTCPLoadBalancer remoteAPI name region hosts (w1, []) =
           (Return (), (w1, [GET load_balancers_path, GET (nodes_path (lb_Id lb')), GET ships_path]))"
    by blast
qed

theorem update_idempotent_witness:
  "GetLoadBalancerByName remoteAPI ''web'' (converged_remote, []) =
     (Return (Some (hd (r_lbs converged_remote))), (converged_remote, [GET load_balancers_path])) \<and>
   GetLoadBalancerNodesAsIPs remoteAPI (lb_Id (hd (r_lbs converged_remote)))
       (converged_remote, [GET load_balancers_path]) =
     (Return [''5.6.7.8'', ''9.9.9.9''],
      (converged_remote, [GET load_balancers_path, GET (nodes_path ''lb1'')])) \<and>
   hostsNamesToIPs remoteAPI [''host-b'', ''host-a'']
       (converged_remote, [GET load_balancers_path, GET (nodes_path ''lb1'')]) =
     (Return [''9.9.9.9'', ''5.6.7.8''],
      (converged_remote, [GET load_balancers_path, GET (nodes_path ''lb1''), GET ships_path])) \<and>
   set [''5.6.7.8'', ''9.9.9.9''] = set [''9.9.9.9'', ''5.6.7.8''] \<and>
   UpdateTCPLoadBalancer remoteAPI ''web'' ''r'' [''host-b'', ''host-a''] (converged_remote, []) =
     (Return (),
      (converged_remote, [GET load_balancers_path, GET (nodes_path ''lb1''), GET ships_path])) \<and>
   remote_wf example_remote \<and>
   fst (GetLoadBalancerByName remoteAPI ''web'' (example_remote, [])) =
     Return (Some (hd (r_lbs example_remote))) \<and>
   fst (hostsNamesToIPs remoteAPI [''host-a'', ''host-b''] (example_remote, [])) =
     Return [''5.6.7.8'', ''9.9.9.9''] \<and>
   (\<exists>w1 cs1.
      UpdateTCPLoadBalancer remoteAPI ''web'' ''r'' [''host-a'', ''host-b''] (example_remote, []) =
        (Return (), (w1, cs1)) \<and>
      set (members w1 (lb_Id (hd (r_lbs example_remote)))) = set [''5.6.7.8'', ''9.9.9.9''] \<and>
      UpdateTCPLoadBalancer remoteAPI ''web'' ''r'' [''host-a'', ''host-b''] (w1, []) =
        (Return (), (w1, [GET load_balancers_path,
           GET (nodes_path (lb_Id (hd (r_lbs example_remote)))), GET ships_path])))"
proof -
  have l1: "GetLoadBalancerByName remoteAPI ''web'' (converged_remote, []) =
     (Return (Some (hd (r_lbs converged_remote))), (converged_remote, [GET load_balancers_path]))"
    by (simp add: run_defs converged_remote_def)
  have l2: "GetLoadBalancerNodesAsIPs remoteAPI (lb_Id (hd (r_lbs converged_remote)))
       (converged_remote, [GET load_balancers_path]) =
     (Return [''5.6.7.8'', ''9.9.9.9''],
      (converged_remote, [GET load_balancers_path, GET (nodes_path ''lb1'')]))"
    by (simp add: run_defs converged_remote_def)
  have l3: "hostsNamesToIPs remoteAPI [''host-b'', ''host-a'']
       (converged_remote, [GET load_balancers_path, GET (nodes_path ''lb1'')]) =
     (Return [''9.9.9.9'', ''5.6.7.8''],
      (converged_remote, [GET load_balancers_path, GET (nodes_path ''lb1''), GET ships_path]))"
    by (simp add: run_defs converged_remote_def)
  have l4: "set [''5.6.7.8'', ''9.9.9.9''] = set [''9.9.9.9'', ''5.6.7.8'']" by auto
  note t1 = update_idempotent [THEN conjunct1, rule_format,
      OF conjI [OF l1 conjI [OF l2 conjI [OF l3 l4]]], of "''r''", THEN conjunct1]
  have a: "fst (GetLoadBalancerByName remoteAPI ''web'' (example_remote, [])) =
     Return (Some (hd (r_lbs example_remote)))"
    by (simp add: remote_GetLoadBalancerByName example_remote_def)
  have b: "fst (hostsNamesToIPs remoteAPI [''host-a'', ''host-b''] (example_remote, [])) =
     Return [''5.6.7.8'', ''9.9.9.9'']"
    by (simp add: remote_hostsNamesToIPs example_remote_def toInstance_def)
  note t2 = update_idempotent [THEN conjunct2, rule_format,
      OF conjI [OF example_remote_wf conjI [OF a b]], of "''r''"]
  from l1 l2 l3 l4 t1 example_remote_wf a b t2 show ?thesis by (intro conjI)
qed

text \<open>
  C4. In every run of \<open>UpdateTCPLoadBalancer\<close> the deleting calls come before
  the posting calls. Once the lookups have succeeded, the run is that of the
  deregister operations for the nodes to remove followed by the register
  operations for the nodes to add, and if the operation at some position fails
  after the ones before it have succeeded, the update returns that error in the
  state that operation left: nothing is attempted after it.
\<close>

theorem update_removals_first_then_abort:
  assumes "UpdateTCPLoadBalancer c name region hosts s = (r, s')"
  shows "(\<exists>ds ps. filter is_mutating (drop (length (snd s)) (snd s')) =
                    map DELETE ds @ map (\<lambda>(p, b). POST p b) ps) \<and>
         (\<forall>lb M D s1 s2 s3.
            GetLoadBalancerByName c name s = (Return (Some lb), s1) \<and>
            GetLoadBalancerNodesAsIPs c (lb_Id lb) s1 = (Return M, s2) \<and>
            hostsNamesToIPs c hosts s2 = (Return D, s3) \<longrightarrow>
            apply_ops c (lb_Id lb)
              (map Deregister (subtractStringArrays M D) @
               map Register (subtractStringArrays D M)) s3 = (r, s') \<and>
            (\<forall>k sk e s''.
               k < length (subtractStringArrays M D) + length (subtractStringArrays D M) \<and>
               apply_ops c (lb_Id lb)
                 (take k (map Deregister (subtractStringArrays M D) @
                          map Register (subtractStringArrays D M))) s3 = (Return (), sk) \<and>
               apply_op c (lb_Id lb)
                 ((map Deregister (subtractStringArrays M D) @
                   map Register (subtractStringArrays D M)) ! k) sk = (Fail e, s'') \<longrightarrow>
               r = Fail e \<and> s' = s''))"
proof (rule conjI)
  show "\<exists>ds ps. filter is_mutating (drop (length (snd s)) (snd s')) =
                  map DELETE ds @ map (\<lambda>(p, b). POST p b) ps"
  proof -
    from update_cases [OF assms] consider
        (ops) lb M D s1 s2 s3 where
          "GetLoadBalancerByName c name s = (Return (Some lb), s1)"
          "GetLoadBalancerNodesAsIPs c (lb_Id lb) s1 = (Return M, s2)"
          "hostsNamesToIPs c hosts s2 = (Return D, s3)"
      | (none) new where "snd s' = snd s @ new" "filter is_mutating new = []"
      by blast
    then show ?thesis
    proof cases
      case ops
      let ?R = "subtractStringArrays M D"
      let ?A = "subtractStringArrays D M"
      from update_refines [OF ops] assms
      have run: "apply_ops c (lb_Id lb) (map Deregister ?R @ map Register ?A) s3 = (r, s')"
        by simp
      from plan_calls [OF run] obtain new and nodes :: "ConcertoLoadBalancerNode list" and k where
        p: "snd s' = snd s3 @ new"
           "filter is_mutating new =
              map (\<lambda>n. DELETE (node_path (lb_Id lb) (node_ID n))) nodes @
              map (\<lambda>a. POST (nodes_path (lb_Id lb)) (marshal_node c \<lparr>node_ID = [], node_IP = a\<rparr>))
                (take k ?A)" by blast
      have "drop (length (snd s)) (snd s') =
          [GET load_balancers_path, GET (nodes_path (lb_Id lb)), GET ships_path] @ new"
        using lookups_calls [OF ops] p(1) by simp
      then have "filter is_mutating (drop (length (snd s)) (snd s')) =
          map DELETE (map (\<lambda>n. node_path (lb_Id lb) (node_ID n)) nodes) @
          map (\<lambda>(p, b). POST p b)
            (map (\<lambda>a. (nodes_path (lb_Id lb), marshal_node c \<lparr>node_ID = [], node_IP = a\<rparr>)) (take k ?A))"
        using p(2) by (simp add: comp_def)
      then show ?thesis by blast
    next
      case none
      then have "filter is_mutating (drop (length (snd s)) (snd s')) =
          map DELETE [] @ map (\<lambda>(p, b). POST p b) []" by simp
      then show ?thesis by blast
    qed
  qed
next
  show "\<forall>lb M D s1 s2 s3.
            GetLoadBalancerByName c name s = (Return (Some lb), s1) \<and>
            GetLoadBalancerNodesAsIPs c (lb_Id lb) s1 = (Return M, s2) \<and>
            hostsNamesToIPs c hosts s2 = (Return D, s3) \<longrightarrow>
            apply_ops c (lb_Id lb)
              (map Deregister (subtractStringArrays M D) @
               map Register (subtractStringArrays D M)) s3 = (r, s') \<and>
            (\<forall>k sk e s''.
               k < length (subtractStringArrays M D) + length (subtractStringArrays D M) \<and>
               apply_ops c (lb_Id lb)
                 (take k (map Deregister (subtractStringArrays M D) @
                          map Register (subtractStringArrays D M))) s3 = (Return (), sk) \<and>
               apply_op c (lb_Id lb)
                 ((map Deregister (subtractStringArrays M D) @
                   map Register (subtractStringArrays D M)) ! k) sk = (Fail e, s'') \<longrightarrow>
               r = Fail e \<and> s' = s'')"
  proof (intro allI impI, elim conjE)
    fix lb M D s1 s2 s3
    assume l: "GetLoadBalancerByName c name s = (Return (Some lb), s1)"
      "GetLoadBalancerNodesAsIPs c (lb_Id lb) s1 = (Return M, s2)"
      "hostsNamesToIPs c hosts s2 = (Return D, s3)"
    let ?R = "subtractStringArrays M D"
    let ?A = "subtractStringArrays D M"
    let ?ops = "map Deregister ?R @ map Register ?A"
    from update_refines [OF l] assms
    have run: "apply_ops c (lb_Id lb) ?ops s3 = (r, s')" by simp
    have "r = Fail e \<and> s' = s''"
      if "k < length ?R + length ?A \<and> apply_ops c (lb_Id lb) (take k ?ops) s3 = (Return (), sk) \<and>
          apply_op c (lb_Id lb) (?ops ! k) sk = (Fail e, s'')" for k sk e s''
    proof -
      from that have klt: "k < length ?ops" by simp
      from that have a: "apply_ops c (lb_Id lb) (take k ?ops) s3 = (Return (), sk)"
        and b: "apply_op c (lb_Id lb) (?ops ! k) sk = (Fail e, s'')" by blast+
      have "apply_ops c (lb_Id lb) ?ops s3 = (Fail e, s'')"
        by (rule apply_ops_fail_at [OF klt a b])
      with run show ?thesis by simp
    qed
    with run show "apply_ops c (lb_Id lb) ?ops s3 = (r, s') \<and>
            (\<forall>k sk e s''.
               k < length ?R + length ?A \<and>
               apply_ops c (lb_Id lb) (take k ?ops) s3 = (Return (), sk) \<and>
               apply_op c (lb_Id lb) (?ops ! k) sk = (Fail e, s'') \<longrightarrow>
               r = Fail e \<and> s' = s'')"
      by blast
  qed
qed

theorem update_removals_first_then_abort_witness:
  "GetLoadBalancerByName failing_delete_remoteAPI ''web'' (example_remote, []) =
     (Return (Some (hd (r_lbs example_remote))), (example_remote, [GET load_balancers_path])) \<and>
   GetLoadBalancerNodesAsIPs failing_delete_remoteAPI ''lb1'' (example_remote, [GET load_balancers_path]) =
     (Return [''1.2.3.4'', ''5.6.7.8''],
      (example_remote, [GET load_balancers_path, GET (nodes_path ''lb1'')])) \<and>
   hostsNamesToIPs failing_delete_remoteAPI [''host-a'', ''host-b'']
       (example_remote, [GET load_balancers_path, GET (nodes_path ''lb1'')]) =
     (Return [''5.6.7.8'', ''9.9.9.9''],
      (example_remote, [GET load_balancers_path, GET (nodes_path ''lb1''), GET ships_path])) \<and>
   map Deregister (subtractStringArrays [''1.2.3.4'', ''5.6.7.8''] [''5.6.7.8'', ''9.9.9.9'']) @
   map Register (subtractStringArrays [''5.6.7.8'', ''9.9.9.9''] [''1.2.3.4'', ''5.6.7.8'']) =
     [Deregister ''1.2.3.4'', Register ''9.9.9.9''] \<and>
   apply_op failing_delete_remoteAPI ''lb1'' (Deregister ''1.2.3.4'')
       (example_remote, [GET load_balancers_path, GET (nodes_path ''lb1''), GET ships_path]) =
     (Fail LoadBalancerDeregisterInstanceError,
      (example_remote, [GET load_balancers_path, GET (nodes_path ''lb1''), GET ships_path,
         GET (nodes_path ''lb1''), DELETE (node_path ''lb1'' ''n1'')])) \<and>
   UpdateTCPLoadBalancer failing_delete_remoteAPI ''web'' ''r'' [''host-a'', ''host-b''] (example_remote, []) =
     (Fail LoadBalancerDeregisterInstanceError,
      (example_remote, [GET load_balancers_path, GET (nodes_path ''lb1''), GET ships_path,
         GET (nodes_path ''lb1''), DELETE (node_path ''lb1'' ''n1'')])) \<and>
   (\<exists>ds ps. filter is_mutating (drop (length (snd (example_remote, [] :: wire call list)))
        (snd (example_remote, [GET load_balancers_path :: wire call, GET (nodes_path ''lb1''),
         GET ships_path, GET (nodes_path ''lb1''), DELETE (node_path ''lb1'' ''n1'')]))) =
      map DELETE ds @ map (\<lambda>(p, b). POST p b) ps)"
proof -
  let ?s3 = "(example_remote,
     [GET load_balancers_path :: wire call, GET (nodes_path ''lb1''), GET ships_path])"
  let ?s' = "(example_remote, [GET load_balancers_path :: wire call, GET (nodes_path ''lb1''),
     GET ships_path, GET (nodes_path ''lb1''), DELETE (node_path ''lb1'' ''n1'')])"
  have l1: "GetLoadBalancerByName failing_delete_remoteAPI ''web'' (example_remote, []) =
     (Return (Some (hd (r_lbs example_remote))), (example_remote, [GET load_balancers_path]))"
    by (simp add: run_defs failing_delete_remoteAPI_def)
  have i: "lb_Id (hd (r_lbs example_remote)) = ''lb1''" by (simp add: example_remote_def)
  have l2: "GetLoadBalancerNodesAsIPs failing_delete_remoteAPI ''lb1''
       (example_remote, [GET load_balancers_path]) =
     (Return [''1.2.3.4'', ''5.6.7.8''],
      (example_remote, [GET load_balancers_path, GET (nodes_path ''lb1'')]))"
    by (simp add: run_defs failing_delete_remoteAPI_def)
  have l3: "hostsNamesToIPs failing_delete_remoteAPI [''host-a'', ''host-b'']
       (example_remote, [GET load_balancers_path, GET (nodes_path ''lb1'')]) =
     (Return [''5.6.7.8'', ''9.9.9.9''], ?s3)"
    by (simp add: run_defs failing_delete_remoteAPI_def)
  have ops: "map Deregister (subtractStringArrays [''1.2.3.4'', ''5.6.7.8''] [''5.6.7.8'', ''9.9.9.9'']) @
     map Register (subtractStringArrays [''5.6.7.8'', ''9.9.9.9''] [''1.2.3.4'', ''5.6.7.8'']) =
     [Deregister ''1.2.3.4'', Register ''9.9.9.9'']"
    by (simp add: subtractStringArrays_def)
  have step: "apply_op failing_delete_remoteAPI ''lb1'' (Deregister ''1.2.3.4'') ?s3 =
     (Fail LoadBalancerDeregisterInstanceError, ?s')"
    by (simp add: run_defs failing_delete_remoteAPI_def)
  obtain r s' where run: "UpdateTCPLoadBalancer failing_delete_remoteAPI ''web'' ''r''
      [''host-a'', ''host-b''] (example_remote, []) = (r, s')"
    by (cases "UpdateTCPLoadBalancer failing_delete_remoteAPI ''web'' ''r''
      [''host-a'', ''host-b''] (example_remote, [])")
  have l2': "GetLoadBalancerNodesAsIPs failing_delete_remoteAPI (lb_Id (hd (r_lbs example_remote)))
       (example_remote, [GET load_balancers_path]) =
     (Return [''1.2.3.4'', ''5.6.7.8''],
      (example_remote, [GET load_balancers_path, GET (nodes_path ''lb1'')]))"
    using l2 by (simp add: i)
  have prem: "0 < length (subtractStringArrays [''1.2.3.4'', ''5.6.7.8''] [''5.6.7.8'', ''9.9.9.9'']) +
           length (subtractStringArrays [''5.6.7.8'', ''9.9.9.9''] [''1.2.3.4'', ''5.6.7.8'']) \<and>
       apply_ops failing_delete_remoteAPI (lb_Id (hd (r_lbs example_remote)))
         (take 0 (map Deregister (subtractStringArrays [''1.2.3.4'', ''5.6.7.8''] [''5.6.7.8'', ''9.9.9.9'']) @
                  map Register (subtractStringArrays [''5.6.7.8'', ''9.9.9.9''] [''1.2.3.4'', ''5.6.7.8''])))
         ?s3 = (Return (), ?s3) \<and>
       apply_op failing_delete_remoteAPI (lb_Id (hd (r_lbs example_remote)))
         ((map Deregister (subtractStringArrays [''1.2.3.4'', ''5.6.7.8''] [''5.6.7.8'', ''9.9.9.9'']) @
           map Register (subtractStringArrays [''5.6.7.8'', ''9.9.9.9''] [''1.2.3.4'', ''5.6.7.8''])) ! 0)
         ?s3 = (Fail LoadBalancerDeregisterInstanceError, ?s')"
    using step by (simp add: subtractStringArrays_def i)
  note t = update_removals_first_then_abort [OF run]
  note t2 = t [THEN conjunct2, rule_format, OF conjI [OF l1 conjI [OF l2' l3]]]
  note res = t2 [THEN conjunct2, rule_format, OF prem]
  from res run have run': "UpdateTCPLoadBalancer failing_delete_remoteAPI ''web'' ''r''
      [''host-a'', ''host-b''] (example_remote, []) = (Fail LoadBalancerDeregisterInstanceError, ?s')"
    by simp
  from t res have first: "\<exists>ds ps. filter is_mutating (drop (length (snd (example_remote, [] :: wire call list)))
        (snd ?s')) = map DELETE ds @ map (\<lambda>(p, b). POST p b) ps"
    by blast
  from l1 l2 l3 ops step run' first show ?thesis by (intro conjI)
qed

text \<open>
  C5. The claim: any input with an affinity other than none gets the affinity
  error, and any input with an explicit address gets the external-address
  error. The code tests the affinity first, so an input with both gets the
  affinity error. As amended: an affinity other than none gets the affinity
  error; affinity none with an explicit address gets the external-address
  error; in both cases the state, with its list of remote calls, is unchanged.
\<close>

theorem ensure_rejects_unsupported:
  "(affinityType \<noteq> ServiceAffinityNone \<longrightarrow>
      EnsureTCPLoadBalancer c name region loadBalancerIP ports hosts affinityType s =
        (Fail LoadBalancerUnsupportedAffinityError, s)) \<and>
   (affinityType = ServiceAffinityNone \<and> loadBalancerIP \<noteq> None \<longrightarrow>
      EnsureTCPLoadBalancer c name region loadBalancerIP ports hosts affinityType s =
        (Fail LoadBalancerUnsupportedExternalIPError, s))"
  by (simp add: EnsureTCPLoadBalancer_def)

theorem ensure_rejects_unsupported_witness:
  "''ClientIP'' \<noteq> ServiceAffinityNone \<and>
   EnsureTCPLoadBalancer remoteAPI ''web'' ''r'' None [Some \<lparr>sp_Port = 80, sp_NodePort = 30080\<rparr>]
     [''host-a''] ''ClientIP'' (example_remote, []) =
     (Fail LoadBalancerUnsupportedAffinityError, (example_remote, [])) \<and>
   EnsureTCPLoadBalancer remoteAPI ''web'' ''r'' (Some [10, 0, 0, 1])
     [Some \<lparr>sp_Port = 80, sp_NodePort = 30080\<rparr>] [''host-a''] ServiceAffinityNone (example_remote, []) =
     (Fail LoadBalancerUnsupportedExternalIPError, (example_remote, []))"
  using ensure_rejects_unsupported [of "''ClientIP''" remoteAPI "''web''" "''r''" None
      "[Some \<lparr>sp_Port = 80, sp_NodePort = 30080\<rparr>]" "[''host-a'']" "(example_remote, [])"]
    ensure_rejects_unsupported [of ServiceAffinityNone remoteAPI "''web''" "''r''" "Some [10, 0, 0, 1]"
      "[Some \<lparr>sp_Port = 80, sp_NodePort = 30080\<rparr>]" "[''host-a'']" "(example_remote, [])"]
  by (simp add: ServiceAffinityNone_def)

theorem ensure_affinity_first_counterexample:
  "fst (EnsureTCPLoadBalancer remoteAPI ''web'' ''r'' (Some [10, 0, 0, 1])
          [Some \<lparr>sp_Port = 80, sp_NodePort = 30080\<rparr>] [''host-a''] ''ClientIP''
          (example_remote, [])) = Fail LoadBalancerUnsupportedAffinityError \<and>
   fst (EnsureTCPLoadBalancer remoteAPI ''web'' ''r'' (Some [10, 0, 0, 1])
          [Some \<lparr>sp_Port = 80, sp_NodePort = 30080\<rparr>] [''host-a''] ''ClientIP''
          (example_remote, [])) \<noteq> Fail LoadBalancerUnsupportedExternalIPError"
  by (simp add: EnsureTCPLoadBalancer_def ServiceAffinityNone_def)

text \<open>
  C6. The claim: \<open>EnsureTCPLoadBalancer\<close> does not check the number of ports
  itself. The code does, after the affinity and the address. As amended: with
  affinity none and no explicit address, a list of ports whose length is not 1
  gets the number-of-ports error, and the state, with its list of remote
  calls, is unchanged.
\<close>

theorem ensure_checks_port_count:
  "affinityType = ServiceAffinityNone \<Longrightarrow> loadBalancerIP = None \<Longrightarrow> length ports \<noteq> 1 \<Longrightarrow>
   EnsureTCPLoadBalancer c name region loadBalancerIP ports hosts affinityType s =
     (Fail LoadBalancerUnsupportedNumberOfPortsError, s)"
  by (simp add: EnsureTCPLoadBalancer_def)

theorem ensure_checks_port_count_witness:
  "length [Some \<lparr>sp_Port = 80, sp_NodePort = 30080\<rparr>, Some \<lparr>sp_Port = 443, sp_NodePort = 30443\<rparr>] \<noteq> 1 \<and>
   EnsureTCPLoadBalancer remoteAPI ''web'' ''r'' None
     [Some \<lparr>sp_Port = 80, sp_NodePort = 30080\<rparr>, Some \<lparr>sp_Port = 443, sp_NodePort = 30443\<rparr>]
     [''host-a''] ServiceAffinityNone (example_remote, []) =
   (Fail LoadBalancerUnsupportedNumberOfPortsError, (example_remote, []))"
  using ensure_checks_port_count [of ServiceAffinityNone None
      "[Some \<lparr>sp_Port = 80, sp_NodePort = 30080\<rparr>, Some \<lparr>sp_Port = 443, sp_NodePort = 30443\<rparr>]"
      remoteAPI "''web''" "''r''" "[''host-a'']" "(example_remote, [])"]
  by simp

theorem ensure_port_count_counterexample:
  "EnsureTCPLoadBalancer remoteAPI ''web'' ''r'' None [] [''host-a''] ServiceAffinityNone
     (example_remote, []) =
   (Fail LoadBalancerUnsupportedNumberOfPortsError, (example_remote, []))"
  by (simp add: EnsureTCPLoadBalancer_def)

text \<open>
  C7. When the transport answers 404 with no error, \<open>GetInstanceList\<close> returns
  the empty list and no error, and \<open>GetLoadBalancerNodes\<close> returns the error
  "Load balancer not found" and no list.
\<close>

theorem listing_404_asymmetry:
  "(Get c ships_path w = ((data, 404, None), w') \<longrightarrow>
      GetInstanceList c (w, cs) = (Return [], (w', cs @ [GET ships_path]))) \<and>
   (Get c (nodes_path loadBalancerId) w = ((data, 404, None), w') \<longrightarrow>
      GetLoadBalancerNodes c loadBalancerId (w, cs) =
        (Fail (LoadBalancerNotFound loadBalancerId), (w', cs @ [GET (nodes_path loadBalancerId)])))"
  by (simp add: GetInstanceList_def GetLoadBalancerNodes_def client_Get_def)

theorem listing_404_asymmetry_witness:
  "Get (RESTMock WEmpty 404 None) ships_path () = ((WEmpty, 404, None), ()) \<and>
   Get (RESTMock WEmpty 404 None) (nodes_path ''lb1'') () = ((WEmpty, 404, None), ()) \<and>
   GetInstanceList (RESTMock WEmpty 404 None) ((), []) = (Return [], ((), [GET ships_path])) \<and>
   GetLoadBalancerNodes (RESTMock WEmpty 404 None) ''lb1'' ((), []) =
     (Fail (LoadBalancerNotFound ''lb1''), ((), [GET (nodes_path ''lb1'')]))"
  using listing_404_asymmetry [of "RESTMock WEmpty 404 None" "()" WEmpty "()" "[]" "''lb1''"]
  by (simp add: RESTMock_def)

text \<open>
  C8. On the reference remote: for a name absent from the listing, one port,
  affinity none, no explicit address and a non-empty list of hosts that all
  resolve to the addresses \<open>D\<close>, \<open>EnsureTCPLoadBalancer\<close> succeeds; it posts
  the new load balancer first and then, after resolving the hosts, registers
  each address of \<open>D\<close> in turn with the id the remote assigned; afterwards the
  name is found and the membership of the new load balancer is \<open>D\<close>.
\<close>

theorem ensure_creates_then_populates:
  assumes "fst (GetLoadBalancerByName remoteAPI name (w, [])) = Return None"
    and "hosts \<noteq> []"
    and "fst (hostsNamesToIPs remoteAPI hosts (w, [])) = Return D"
  shows "\<exists>w' lb.
           EnsureTCPLoadBalancer remoteAPI name region None [Some p] hosts ServiceAffinityNone (w, []) =
             (Return (toStatus lb),
              (w', [GET load_balancers_path,
                    POST load_balancers_path
                      (WLoadBalancer \<lparr>lb_Id = [], lb_Name = name, lb_FQDN = name,
                         lb_Port = sp_Port p, lb_NodePort = sp_NodePort p, lb_Protocol = ''tcp''\<rparr>),
                    GET ships_path] @
                   concat (map (\<lambda>a. [GET ships_path,
                      POST (nodes_path (lb_Id lb)) (WNode \<lparr>node_ID = [], node_IP = a\<rparr>)]) D))) \<and>
           lb_Id lb \<notin> set (map lb_Id (r_lbs w)) \<and>
           fst (GetLoadBalancerByName remoteAPI name (w', [])) = Return (Some lb) \<and>
           members w' (lb_Id lb) = D"
proof -
  from assms(1) have absent: "find (\<lambda>lb. lb_Name lb = name) (r_lbs w) = None"
    by (simp add: remote_GetLoadBalancerByName)
  from assms(3) have res: "namesToIPs (map toInstance (r_ships w)) [] hosts = Return D"
    by (simp add: remote_hostsNamesToIPs)
  define lb0 where "lb0 = \<lparr>lb_Id = [], lb_Name = name, lb_FQDN = name,
     lb_Port = sp_Port p, lb_NodePort = sp_NodePort p, lb_Protocol = ''tcp''\<rparr>"
  define lb' where "lb' = lb0\<lparr>lb_Id := fresh_id (map lb_Id (r_lbs w))\<rparr>"
  define w1 where "w1 = w\<lparr>r_lbs := r_lbs w @ [lb'], r_nodes := (r_nodes w)(lb_Id lb' := [])\<rparr>"
  let ?i = "lb_Id lb'"
  let ?cs1 = "[GET load_balancers_path :: wire call]"
  let ?cs2 = "[GET load_balancers_path, POST load_balancers_path (WLoadBalancer lb0)]"
  let ?cs3 = "[GET load_balancers_path, POST load_balancers_path (WLoadBalancer lb0), GET ships_path]"
  have i: "?i = fresh_id (map lb_Id (r_lbs w))" by (simp add: lb'_def)
  have name': "lb_Name lb' = name" by (simp add: lb'_def lb0_def)
  have look: "GetLoadBalancerByName remoteAPI name (w, []) = (Return None, (w, ?cs1))"
    by (simp add: remote_GetLoadBalancerByName absent)
  have create: "CreateLoadBalancer remoteAPI name (sp_Port p) (sp_NodePort p) (w, ?cs1) =
      (Return lb', (w1, ?cs2))"
    by (simp add: remote_CreateLoadBalancer Let_def lb0_def lb'_def w1_def)
  have names: "hostsNamesToIPs remoteAPI hosts (w1, ?cs2) = (Return D, (w1, ?cs3))"
    using res by (simp add: remote_hostsNamesToIPs w1_def)
  have p1: "no_slash ?i" unfolding i by (rule fresh_id_no_slash)
  have p2: "?i \<in> set (map lb_Id (r_lbs w1))" by (simp add: w1_def)
  have p3: "set D \<subseteq> set (map ship_Public_ip (r_ships w1))"
    using resolved_are_ships [OF res] by (simp add: w1_def)
  have p4: "distinct (map node_ID (r_nodes w1 ?i))" by (simp add: w1_def)
  from remote_Register [OF p1 p2 p3 p4, of ?cs3] obtain w' where
    reg: "RegisterInstancesWithLoadBalancer remoteAPI ?i D (w1, ?cs3) =
            (Return (), (w', ?cs3 @ concat (map (\<lambda>a. [GET ships_path,
                POST (nodes_path ?i) (WNode \<lparr>node_ID = [], node_IP = a\<rparr>)]) D)))"
      and lbs': "r_lbs w' = r_lbs w1"
      and ips': "map node_IP (r_nodes w' ?i) = map node_IP (r_nodes w1 ?i) @ D" by blast
  have run: "EnsureTCPLoadBalancer remoteAPI name region None [Some p] hosts ServiceAffinityNone (w, []) =
      (Return (toStatus lb'), (w', ?cs3 @ concat (map (\<lambda>a. [GET ships_path,
                POST (nodes_path ?i) (WNode \<lparr>node_ID = [], node_IP = a\<rparr>)]) D)))"
    using assms(2)
    by (simp add: EnsureTCPLoadBalancer_def look createTCPLoadBalancer_def andThen_def create
          names reg ret_def)
  have new: "?i \<notin> set (map lb_Id (r_lbs w))" unfolding i by (rule fresh_id_new)
  have found: "fst (GetLoadBalancerByName remoteAPI name (w', [])) = Return (Some lb')"
    using find_append_last [of "\<lambda>lb. lb_Name lb = name" "r_lbs w" lb', OF absent name']
    by (simp add: remote_GetLoadBalancerByName lbs' w1_def)
  have mem: "members w' ?i = D" using ips' by (simp add: members_def w1_def)
  from run new found mem show ?thesis unfolding lb0_def by blast
qed

theorem ensure_creates_then_populates_witness:
  "fst (GetLoadBalancerByName remoteAPI ''api'' (example_remote, [])) = Return None \<and>
   [''host-a'', ''host-b''] \<noteq> [] \<and>
   fst (hostsNamesToIPs remoteAPI [''host-a'', ''host-b''] (example_remote, [])) =
     Return [''5.6.7.8'', ''9.9.9.9''] \<and>
   (\<exists>w' lb.
      EnsureTCPLoadBalancer remoteAPI ''api'' ''r'' None [Some \<lparr>sp_Port = 443, sp_NodePort = 30443\<rparr>]
        [''host-a'', ''host-b''] ServiceAffinityNone (example_remote, []) =
        (Return (toStatus lb),
         (w', [GET load_balancers_path,
               POST load_balancers_path
                 (WLoadBalancer \<lparr>lb_Id = [], lb_Name = ''api'', lb_FQDN = ''api'',
                    lb_Port = sp_Port \<lparr>sp_Port = 443, sp_NodePort = 30443\<rparr>,
                    lb_NodePort = sp_NodePort \<lparr>sp_Port = 443, sp_NodePort = 30443\<rparr>,
                    lb_Protocol = ''tcp''\<rparr>),
               GET ships_path] @
              concat (map (\<lambda>a. [GET ships_path,
                 POST (nodes_path (lb_Id lb)) (WNode \<lparr>node_ID = [], node_IP = a\<rparr>)])
                 [''5.6.7.8'', ''9.9.9.9'']))) \<and>
      lb_Id lb \<notin> set (map lb_Id (r_lbs example_remote)) \<and>
      fst (GetLoadBalancerByName remoteAPI ''api'' (w', [])) = Return (Some lb) \<and>
      members w' (lb_Id lb) = [''5.6.7.8'', ''9.9.9.9''])"
proof -
  have a: "fst (GetLoadBalancerByName remoteAPI ''api'' (example_remote, [])) = Return None"
    by (simp add: remote_GetLoadBalancerByName example_remote_def)
  have b: "[''host-a'', ''host-b''] \<noteq> []" by simp
  have c: "fst (hostsNamesToIPs remoteAPI [''host-a'', ''host-b''] (example_remote, [])) =
     Return [''5.6.7.8'', ''9.9.9.9'']"
    by (simp add: remote_hostsNamesToIPs example_remote_def toInstance_def)
  note d = ensure_creates_then_populates [OF a b c, of "''r''" "\<lparr>sp_Port = 443, sp_NodePort = 30443\<rparr>"]
  from a b c d show ?thesis by (intro conjI)
qed

text \<open>
  C9. When the lookup finds no load balancer, \<open>EnsureTCPLoadBalancerDeleted\<close>
  succeeds and its only remote call is the listing. When the lookup finds one,
  its remote calls are the listing and one delete of that load balancer by its
  id. On the reference remote, where names are unique, that delete succeeds and
  a lookup afterwards finds nothing under the name.
\<close>

theorem ensure_deleted_idempotent:
  "(GetLoadBalancerByName c name s = (Return None, s1) \<longrightarrow>
      EnsureTCPLoadBalancerDeleted c name region s = (Return (), s1) \<and>
      snd s1 = snd s @ [GET load_balancers_path]) \<and>
   (GetLoadBalancerByName c name s = (Return (Some lb), s1) \<and>
    EnsureTCPLoadBalancerDeleted c name region s = (r, s') \<longrightarrow>
      snd s' = snd s @ [GET load_balancers_path, DELETE (load_balancer_path (lb_Id lb))]) \<and>
   (remote_wf w \<and> distinct (map lb_Name (r_lbs w)) \<and>
    fst (GetLoadBalancerByName remoteAPI name (w, [])) = Return (Some lb) \<longrightarrow>
      (\<exists>w'. EnsureTCPLoadBalancerDeleted remoteAPI name region (w, []) =
               (Return (), (w', [GET load_balancers_path, DELETE (load_balancer_path (lb_Id lb))])) \<and>
            fst (GetLoadBalancerByName remoteAPI name (w', [])) = Return None))"
proof (intro conjI impI)
  assume a: "GetLoadBalancerByName c name s = (Return None, s1)"
  then show "EnsureTCPLoadBalancerDeleted c name region s = (Return (), s1)"
    by (simp add: EnsureTCPLoadBalancerDeleted_def andThen_def ret_def)
  from a show "snd s1 = snd s @ [GET load_balancers_path]"
    by (rule GetLoadBalancerByName_calls)
next
  assume "GetLoadBalancerByName c name s = (Return (Some lb), s1) \<and>
    EnsureTCPLoadBalancerDeleted c name region s = (r, s')"
  then have l: "GetLoadBalancerByName c name s = (Return (Some lb), s1)"
    and e: "EnsureTCPLoadBalancerDeleted c name region s = (r, s')" by simp_all
  from e have d: "DeleteLoadBalancerById c (lb_Id lb) s1 = (r, s')"
    by (simp add: EnsureTCPLoadBalancerDeleted_def andThen_def l)
  from GetLoadBalancerByName_calls [OF l] DeleteLoadBalancerById_calls [OF d]
  show "snd s' = snd s @ [GET load_balancers_path, DELETE (load_balancer_path (lb_Id lb))]"
    by simp
next
  assume h: "remote_wf w \<and> distinct (map lb_Name (r_lbs w)) \<and>
    fst (GetLoadBalancerByName remoteAPI name (w, [])) = Return (Some lb)"
  then have wf: "remote_wf w" and dn: "distinct (map lb_Name (r_lbs w))"
    and f: "find (\<lambda>lb. lb_Name lb = name) (r_lbs w) = Some lb"
    by (simp_all add: remote_GetLoadBalancerByName)
  from find_in_lbs [OF f] have mem: "lb \<in> set (r_lbs w)" by simp
  note p = remote_wf_lb [OF wf mem]
  let ?w' = "w\<lparr>r_lbs := filter (\<lambda>x. lb_Id x \<noteq> lb_Id lb) (r_lbs w)\<rparr>"
  have run: "EnsureTCPLoadBalancerDeleted remoteAPI name region (w, []) =
      (Return (), (?w', [GET load_balancers_path, DELETE (load_balancer_path (lb_Id lb))]))"
    using remote_DeleteLoadBalancerById [OF p(1,2), of "[GET load_balancers_path]"]
    by (simp add: EnsureTCPLoadBalancerDeleted_def andThen_def remote_GetLoadBalancerByName f)
  have gone: "fst (GetLoadBalancerByName remoteAPI name (?w', [])) = Return None"
    using find_after_delete [OF dn f] by (simp add: remote_GetLoadBalancerByName)
  from run gone show "\<exists>w'. EnsureTCPLoadBalancerDeleted remoteAPI name region (w, []) =
               (Return (), (w', [GET load_balancers_path, DELETE (load_balancer_path (lb_Id lb))])) \<and>
            fst (GetLoadBalancerByName remoteAPI name (w', [])) = Return None"
    by blast
qed

theorem ensure_deleted_idempotent_witness:
  "GetLoadBalancerByName remoteAPI ''absent'' (example_remote, []) =
     (Return None, (example_remote, [GET load_balancers_path])) \<and>
   EnsureTCPLoadBalancerDeleted remoteAPI ''absent'' ''r'' (example_remote, []) =
     (Return (), (example_remote, [GET load_balancers_path])) \<and>
   remote_wf example_remote \<and> distinct (map lb_Name (r_lbs example_remote)) \<and>
   fst (GetLoadBalancerByName remoteAPI ''web'' (example_remote, [])) =
     Return (Some (hd (r_lbs example_remote))) \<and>
   GetLoadBalancerByName remoteAPI ''web'' (example_remote, []) =
     (Return (Some (hd (r_lbs example_remote))), (example_remote, [GET load_balancers_path])) \<and>
   EnsureTCPLoadBalancerDeleted remoteAPI ''web'' ''r'' (example_remote, []) =
     (Return (), (example_remote\<lparr>r_lbs := []\<rparr>,
        [GET load_balancers_path, DELETE (load_balancer_path ''lb1'')])) \<and>
   snd (example_remote\<lparr>r_lbs := []\<rparr>,
        [GET load_balancers_path :: wire call, DELETE (load_balancer_path ''lb1'')]) =
     snd (example_remote, [] :: wire call list) @
     [GET load_balancers_path, DELETE (load_balancer_path (lb_Id (hd (r_lbs example_remote))))] \<and>
   (\<exists>w'. EnsureTCPLoadBalancerDeleted remoteAPI ''web'' ''r'' (example_remote, []) =
            (Return (), (w', [GET load_balancers_path,
               DELETE (load_balancer_path (lb_Id (hd (r_lbs example_remote))))])) \<and>
         fst (GetLoadBalancerByName remoteAPI ''web'' (w', [])) = Return None)"
proof -
  have d: "GetLoadBalancerByName remoteAPI ''web'' (example_remote, []) =
     (Return (Some (hd (r_lbs example_remote))), (example_remote, [GET load_balancers_path]))"
    by (simp add: remote_GetLoadBalancerByName example_remote_def)
  have e: "EnsureTCPLoadBalancerDeleted remoteAPI ''web'' ''r'' (example_remote, []) =
     (Return (), (example_remote\<lparr>r_lbs := []\<rparr>,
        [GET load_balancers_path, DELETE (load_balancer_path ''lb1'')]))"
    by (simp add: run_defs)
  note t3 = ensure_deleted_idempotent [THEN conjunct2, THEN conjunct1, rule_format,
      OF conjI [OF d e]]
  have a: "GetLoadBalancerByName remoteAPI ''absent'' (example_remote, []) =
     (Return None, (example_remote, [GET load_balancers_path]))"
    by (simp add: remote_GetLoadBalancerByName example_remote_def)
  have b: "distinct (map lb_Name (r_lbs example_remote))" by (simp add: example_remote_def)
  have c: "fst (GetLoadBalancerByName remoteAPI ''web'' (example_remote, [])) =
     Return (Some (hd (r_lbs example_remote)))"
    by (simp add: remote_GetLoadBalancerByName example_remote_def)
  note t1 = ensure_deleted_idempotent [of remoteAPI "''absent''" "(example_remote, [])"
      "(example_remote, [GET load_balancers_path])" "''r''", THEN conjunct1, rule_format, OF a,
      THEN conjunct1]
  note t2 = ensure_deleted_idempotent [of _ _ _ _ "''r''" _ _ _ example_remote,
      THEN conjunct2, THEN conjunct2, rule_format, OF conjI [OF example_remote_wf conjI [OF b c]]]
  from a t1 example_remote_wf b c d e t3 t2 show ?thesis by (intro conjI)
qed

text \<open>
  C10. Every call that \<open>registerInstanceWithLoadBalancer\<close> posts goes to the
  nodes of the load balancer and carries the node with an empty id and the
  address it was asked to register; on success it is the only call after the
  listing of the instances. \<open>toNode\<close> copies nothing of an instance but its
  address.
\<close>

theorem register_posts_address_only:
  assumes "registerInstanceWithLoadBalancer c loadBalancerId ip s = (r, s')"
  shows "(\<forall>p b. POST p b \<in> set (drop (length (snd s)) (snd s')) \<longrightarrow>
            p = nodes_path loadBalancerId \<and>
            b = marshal_node c \<lparr>node_ID = [], node_IP = ip\<rparr>) \<and>
         (r = Return () \<longrightarrow>
            drop (length (snd s)) (snd s') =
              [GET ships_path,
               POST (nodes_path loadBalancerId) (marshal_node c \<lparr>node_ID = [], node_IP = ip\<rparr>)]) \<and>
         toNode ci = \<lparr>node_ID = [], node_IP = inst_PublicIP ci\<rparr>"
  using register_calls [OF assms] by (auto simp: toNode_def)

theorem register_posts_address_only_witness:
  "registerInstanceWithLoadBalancer
     (RESTMock (WShips [\<lparr>ship_Id = ''1234'', ship_Fqdn = ''host-a'', ship_Name = ''a'',
        ship_Public_ip = ''1.2.3.4'', ship_Server_plan_id = ''p'', ship_Cpus = 1,
        ship_Memory = 1024, ship_Storage = 10\<rparr>]) 201 None) ''someLB'' ''1.2.3.4'' ((), []) =
     (Return (), ((), [GET ships_path,
        POST (nodes_path ''someLB'') (WNode \<lparr>node_ID = [], node_IP = ''1.2.3.4''\<rparr>)])) \<and>
   drop (length (snd ((), [] :: wire call list)))
     (snd ((), [GET ships_path,
        POST (nodes_path ''someLB'') (WNode \<lparr>node_ID = [], node_IP = ''1.2.3.4''\<rparr>)])) =
     [GET ships_path,
      POST (nodes_path ''someLB'')
        (marshal_node (RESTMock (WShips [\<lparr>ship_Id = ''1234'', ship_Fqdn = ''host-a'', ship_Name = ''a'',
        ship_Public_ip = ''1.2.3.4'', ship_Server_plan_id = ''p'', ship_Cpus = 1,
        ship_Memory = 1024, ship_Storage = 10\<rparr>]) 201 None) \<lparr>node_ID = [], node_IP = ''1.2.3.4''\<rparr>)]"
proof -
  let ?c = "RESTMock (WShips [\<lparr>ship_Id = ''1234'', ship_Fqdn = ''host-a'', ship_Name = ''a'',
        ship_Public_ip = ''1.2.3.4'', ship_Server_plan_id = ''p'', ship_Cpus = 1,
        ship_Memory = 1024, ship_Storage = 10\<rparr>]) 201 None"
  have run: "registerInstanceWithLoadBalancer ?c ''someLB'' ''1.2.3.4'' ((), []) =
     (Return (), ((), [GET ships_path,
        POST (nodes_path ''someLB'') (WNode \<lparr>node_ID = [], node_IP = ''1.2.3.4''\<rparr>)]))"
    by (simp add: registerInstanceWithLoadBalancer_def GetInstanceByIP_def GetInstanceList_def
          andThen_def client_Get_def client_Post_def RESTMock_def toInstance_def toNode_def)
  from run register_posts_address_only [OF run] show ?thesis by simp
qed

end
